theory Spec2Isabelle
  imports Complex_Main
begin

section \<open>Python values, exceptions and library functions\<close>

text \<open>
  The program is one Python module, \<^verbatim>\<open>option_value.py\<close>. Its numbers are modelled as
  real numbers: Python floats are read as the reals they approximate, so rounding, overflow,
  infinities and NaN are outside the model. An exception is a value: a computation of
  type \<open>exn + 'a\<close> either raises (\<open>Inl\<close>) or returns (\<open>Inr\<close>).
\<close>

datatype exn =
    ZeroDivisionError
  | ValueError
  | KeyError
  | TypeError
  | UnboundLocalError
  | ProviderError
  | KeyboardInterrupt

text \<open>
  \<^verbatim>\<open>except Exception\<close> catches every class derived from \<^verbatim>\<open>Exception\<close>;
  \<^verbatim>\<open>KeyboardInterrupt\<close> derives from \<^verbatim>\<open>BaseException\<close> only and passes through.
  \<open>ProviderError\<close> stands for any \<^verbatim>\<open>Exception\<close> the market-data library raises.
\<close>

fun is_Exception :: "exn \<Rightarrow> bool" where
  "is_Exception KeyboardInterrupt = False"
| "is_Exception _ = True"

definition exn_bind :: "exn + 'a \<Rightarrow> ('a \<Rightarrow> exn + 'b) \<Rightarrow> exn + 'b" where
  "exn_bind m f = (case m of Inl e \<Rightarrow> Inl e | Inr v \<Rightarrow> f v)"

text \<open>
  \<^verbatim>\<open>try: body except Exception: handler\<close>, where the body either raises or yields a value.
\<close>

definition try_except_Exception :: "exn + 'a \<Rightarrow> (exn + 'a) \<Rightarrow> exn + 'a" where
  "try_except_Exception body handler =
     (case body of
        Inl e \<Rightarrow> if is_Exception e then handler else Inl e
      | Inr v \<Rightarrow> Inr v)"

text \<open>Float division, \<^verbatim>\<open>math.log\<close> and \<^verbatim>\<open>math.sqrt\<close> with the errors Python raises.\<close>

definition py_truediv :: "real \<Rightarrow> real \<Rightarrow> exn + real" where
  "py_truediv a b = (if b = 0 then Inl ZeroDivisionError else Inr (a / b))"

definition py_log :: "real \<Rightarrow> exn + real" where
  "py_log x = (if x \<le> 0 then Inl ValueError else Inr (ln x))"

definition py_sqrt :: "real \<Rightarrow> exn + real" where
  "py_sqrt x = (if x < 0 then Inl ValueError else Inr (sqrt x))"

text \<open>
  \<^verbatim>\<open>math.erf\<close> is the error function, here given by its Maclaurin series
  \<open>2 / sqrt pi * (\<Sum>k. (-1)^k * x^(2k+1) / (k! * (2k+1)))\<close>, and
  \<^verbatim>\<open>statistics.NormalDist(mu, sigma).cdf(x)\<close> is
  \<^verbatim>\<open>0.5 * (1.0 + erf((x - mu) / (sigma * sqrt(2.0))))\<close>.
\<close>

definition erf_coeff :: "nat \<Rightarrow> real" where
  "erf_coeff n = (if odd n then (- 1) ^ (n div 2) / (fact (n div 2) * real n) else 0)"

definition erf_series :: "real \<Rightarrow> real" where
  "erf_series x = (\<Sum>n. erf_coeff n * x ^ n)"

definition erf :: "real \<Rightarrow> real" where
  "erf x = 2 / sqrt pi * erf_series x"

definition NormalDist_cdf :: "real \<Rightarrow> real \<Rightarrow> real \<Rightarrow> real" where
  "NormalDist_cdf mu sigma x = 0.5 * (1 + erf ((x - mu) / (sigma * sqrt 2)))"

section \<open>Default fallback parameters\<close>

definition R_DEFAULT :: real where
  "R_DEFAULT = 5 / 100"

definition SIGMA_DEFAULT :: real where
  "SIGMA_DEFAULT = 25 / 100"

definition SHARES_PER_CONTRACT :: int where
  "SHARES_PER_CONTRACT = 100"

section \<open>Black--Scholes formulas for calls and puts\<close>

text \<open>The nested helper \<^verbatim>\<open>phi\<close> of both pricing functions.\<close>

definition phi :: "real \<Rightarrow> real" where
  "phi x = NormalDist_cdf 0 1 x"

text \<open>
  \<^verbatim>\<open>call_value(S, K, r, sigma, T)\<close> and \<^verbatim>\<open>put_value(S, K, r, sigma, T)\<close>. The
  operations are bound in Python's evaluation order: \<^verbatim>\<open>S / K\<close>, its logarithm, the
  square root, the division by \<^verbatim>\<open>sigma * sqrt(T)\<close>, and the square root again for
  \<^verbatim>\<open>d2\<close>.
\<close>

definition call_value :: "real \<Rightarrow> real \<Rightarrow> real \<Rightarrow> real \<Rightarrow> real \<Rightarrow> exn + real" where
  "call_value S K r sigma T =
     (if T \<le> 0 then Inr (max 0 (S - K))
      else
        exn_bind (py_truediv S K) (\<lambda>q.
        exn_bind (py_log q) (\<lambda>l.
        exn_bind (py_sqrt T) (\<lambda>sT.
        exn_bind (py_truediv (l + (r + 0.5 * sigma\<^sup>2) * T) (sigma * sT)) (\<lambda>d1.
        exn_bind (py_sqrt T) (\<lambda>sT'.
          let d2 = d1 - sigma * sT'
          in Inr (S * phi d1 - K * exp (- r * T) * phi d2)))))))"

definition put_value :: "real \<Rightarrow> real \<Rightarrow> real \<Rightarrow> real \<Rightarrow> real \<Rightarrow> exn + real" where
  "put_value S K r sigma T =
     (if T \<le> 0 then Inr (max 0 (K - S))
      else
        exn_bind (py_truediv S K) (\<lambda>q.
        exn_bind (py_log q) (\<lambda>l.
        exn_bind (py_sqrt T) (\<lambda>sT.
        exn_bind (py_truediv (l + (r + 0.5 * sigma\<^sup>2) * T) (sigma * sT)) (\<lambda>d1.
        exn_bind (py_sqrt T) (\<lambda>sT'.
          let d2 = d1 - sigma * sT'
          in Inr (K * exp (- r * T) * phi (- d2) - S * phi (- d1))))))))"

section \<open>The market-data provider\<close>

text \<open>
  The \<^verbatim>\<open>yfinance\<close> library is outside the program. A cell of one of its tables or
  dictionaries is \<^verbatim>\<open>None\<close> or a number; a dictionary maps some keys to cells; a data
  frame is the list of its rows under the default index \<open>0, 1, 2, \<dots>\<close>, each row
  mapping the frame's column names to cells. Every call into the library may raise.
\<close>

type_synonym pyval = "real option"

type_synonym pydict = "string \<rightharpoonup> pyval"

type_synonym frame = "pydict list"

record option_chain_result =
  calls :: frame
  puts :: frame

text \<open>
  What \<^verbatim>\<open>yf.Ticker(symbol)\<close> offers the program: \<open>fast_info\<close> is absent
  (\<^verbatim>\<open>hasattr\<close> is false) or answers \<^verbatim>\<open>.get(key, None)\<close>; \<open>info\<close> is a dictionary;
  \<open>history\<close> is the frame of \<^verbatim>\<open>history(period="1d", interval="1m")\<close>; \<open>options\<close> is
  the tuple of expiration strings; \<open>option_chain\<close> is the chain of one expiration.
\<close>

record ticker_obj =
  fast_info :: "(string \<Rightarrow> exn + pyval) option"
  info :: "exn + pydict"
  history :: "exn + frame"
  options :: "exn + string list"
  option_chain :: "string \<Rightarrow> exn + option_chain_result"

type_synonym provider = "string \<Rightarrow> exn + ticker_obj"

text \<open>\<^verbatim>\<open>d.get(key, default)\<close> on a dictionary or on a row of a frame.\<close>

definition dict_get :: "pydict \<Rightarrow> string \<Rightarrow> pyval \<Rightarrow> pyval" where
  "dict_get d key dflt = (case d key of None \<Rightarrow> dflt | Some v \<Rightarrow> v)"

text \<open>\<^verbatim>\<open>df[col]\<close>: the column as a list of cells, \<^verbatim>\<open>KeyError\<close> when a row lacks it.\<close>

definition frame_col :: "frame \<Rightarrow> string \<Rightarrow> exn + pyval list" where
  "frame_col df col =
     (if list_all (\<lambda>row. row col \<noteq> None) df
      then Inr (map (\<lambda>row. dict_get row col None) df)
      else Inl KeyError)"

text \<open>\<^verbatim>\<open>abs(column - target)\<close>: element-wise, \<^verbatim>\<open>TypeError\<close> on a \<^verbatim>\<open>None\<close> cell.\<close>

fun abs_diff :: "pyval list \<Rightarrow> real \<Rightarrow> exn + real list" where
  "abs_diff [] target = Inr []"
| "abs_diff (None # cs) target = Inl TypeError"
| "abs_diff (Some c # cs) target =
     exn_bind (abs_diff cs target) (\<lambda>ds. Inr (\<bar>c - target\<bar> # ds))"

text \<open>
  \<^verbatim>\<open>Series.idxmin()\<close>: the label of the first occurrence of the minimum, \<^verbatim>\<open>ValueError\<close>
  on an empty column. \<open>idxmin_from vs i best bv\<close> scans the cells \<open>vs\<close>, which start at
  index \<open>i\<close>, holding the best index and value so far.
\<close>

fun idxmin_from :: "real list \<Rightarrow> nat \<Rightarrow> nat \<Rightarrow> real \<Rightarrow> nat" where
  "idxmin_from [] i best bv = best"
| "idxmin_from (v # vs) i best bv =
     (if v < bv then idxmin_from vs (Suc i) i v else idxmin_from vs (Suc i) best bv)"

fun idxmin :: "real list \<Rightarrow> exn + nat" where
  "idxmin [] = Inl ValueError"
| "idxmin (v # vs) = Inr (idxmin_from vs 1 0 v)"

section \<open>Retrieve risk-free rate\<close>

text \<open>
  \<^verbatim>\<open>get_risk_free_rate()\<close>. The body of its \<^verbatim>\<open>try\<close> either returns a value
  (\<open>Some\<close>), falls through (\<open>None\<close>) or raises; after it comes \<^verbatim>\<open>return R_DEFAULT\<close>.
\<close>

definition get_risk_free_rate_try :: "provider \<Rightarrow> exn + real option" where
  "get_risk_free_rate_try yf =
     exn_bind (yf ''^IRX'') (\<lambda>tk.
     exn_bind (info tk) (\<lambda>inf.
       let r_percent = dict_get inf ''regularMarketPrice'' None
       in case r_percent of
            Some p \<Rightarrow> Inr (Some (p / 100))
          | None \<Rightarrow> Inr None))"

definition get_risk_free_rate :: "provider \<Rightarrow> exn + real" where
  "get_risk_free_rate yf =
     exn_bind (try_except_Exception (get_risk_free_rate_try yf) (Inr None)) (\<lambda>returned.
       case returned of
         Some v \<Rightarrow> Inr v
       | None \<Rightarrow> Inr R_DEFAULT)"

section \<open>Retrieve implied volatility from the option chain\<close>

text \<open>
  \<^verbatim>\<open>get_implied_vol(symbol, exp_str, option_type, target_strike)\<close>: the body of its
  \<^verbatim>\<open>try\<close>, every path of which returns, and the handler, which returns the default.
\<close>

definition get_implied_vol_try :: "provider \<Rightarrow> string \<Rightarrow> string \<Rightarrow> string \<Rightarrow> real \<Rightarrow> exn + real" where
  "get_implied_vol_try yf symbol exp_str opt_type target_strike =
     exn_bind (yf symbol) (\<lambda>tk.
     exn_bind (options tk) (\<lambda>opts.
       if exp_str \<notin> set opts then Inr SIGMA_DEFAULT
       else
         exn_bind (option_chain tk exp_str) (\<lambda>chain.
           let df = (if opt_type = ''call'' then calls chain else puts chain)
           in if df = [] then Inr SIGMA_DEFAULT
              else
                exn_bind (frame_col df ''strike'') (\<lambda>strikes.
                exn_bind (abs_diff strikes target_strike) (\<lambda>diff.
                exn_bind (idxmin diff) (\<lambda>i.
                  let best_row = df ! i;
                      sigma_live = dict_get best_row ''impliedVolatility'' (Some SIGMA_DEFAULT)
                  in case sigma_live of
                       None \<Rightarrow> Inr SIGMA_DEFAULT
                     | Some s \<Rightarrow> Inr s))))))"

definition get_implied_vol :: "provider \<Rightarrow> string \<Rightarrow> string \<Rightarrow> string \<Rightarrow> real \<Rightarrow> exn + real" where
  "get_implied_vol yf symbol exp_str opt_type target_strike =
     try_except_Exception (get_implied_vol_try yf symbol exp_str opt_type target_strike)
       (Inr SIGMA_DEFAULT)"

section \<open>Retrieve live underlying price\<close>

text \<open>
  \<^verbatim>\<open>get_live_price(symbol)\<close>. The body of the first \<^verbatim>\<open>try\<close> returns a price
  (\<open>Some\<close>), falls through (\<open>None\<close>) or raises. The second \<^verbatim>\<open>try\<close> runs when the
  first did not return. When \<^verbatim>\<open>yf.Ticker\<close> itself raised, the name \<^verbatim>\<open>ticker\<close> is
  unbound there and reading it raises \<^verbatim>\<open>UnboundLocalError\<close>, which the second
  \<^verbatim>\<open>try\<close> catches. After it comes \<^verbatim>\<open>return None\<close>.
\<close>

definition get_live_price_try1 :: "provider \<Rightarrow> string \<Rightarrow> exn + pyval" where
  "get_live_price_try1 yf symbol =
     exn_bind (yf symbol) (\<lambda>tk.
     exn_bind (case fast_info tk of
                 None \<Rightarrow> Inr None
               | Some fi \<Rightarrow> fi ''lastPrice'') (\<lambda>price.
       case price of
         Some p \<Rightarrow> Inr (Some p)
       | None \<Rightarrow>
           exn_bind (info tk) (\<lambda>inf.
             Inr (dict_get inf ''regularMarketPrice'' None))))"

definition get_live_price_try2 :: "provider \<Rightarrow> string \<Rightarrow> exn + pyval" where
  "get_live_price_try2 yf symbol =
     exn_bind (case yf symbol of
                 Inl e \<Rightarrow> Inl UnboundLocalError
               | Inr tk \<Rightarrow> history tk) (\<lambda>data.
       if data \<noteq> []
       then exn_bind (frame_col data ''Close'') (\<lambda>close. Inr (last close))
       else Inr None)"

definition get_live_price :: "provider \<Rightarrow> string \<Rightarrow> exn + pyval" where
  "get_live_price yf symbol =
     exn_bind (try_except_Exception (get_live_price_try1 yf symbol) (Inr None)) (\<lambda>returned.
       case returned of
         Some p \<Rightarrow> Inr (Some p)
       | None \<Rightarrow> try_except_Exception (get_live_price_try2 yf symbol) (Inr None))"

section \<open>The streaming loop\<close>

text \<open>
  A position is one accepted line of the CSV file, as the loader of
  \<^verbatim>\<open>stream_valuation\<close> appends it to \<^verbatim>\<open>positions\<close>; reading the file is not modelled.
\<close>

record position =
  ticker :: string
  expiration_date :: string
  option_type :: string
  strike :: real
  move_str :: string
  purchase_price :: real
  contracts :: int

text \<open>
  A \<^verbatim>\<open>datetime\<close> is a count of microseconds, and \<^verbatim>\<open>(a - b).days\<close> is the floor of the
  difference in days, as \<^verbatim>\<open>timedelta\<close> normalises it.
\<close>

type_synonym datetime = int

definition timedelta_days :: "int \<Rightarrow> int" where
  "timedelta_days delta = delta div 86400000000"

text \<open>\<^verbatim>\<open>str.strip()\<close> over the ASCII whitespace characters.\<close>

definition is_space :: "char \<Rightarrow> bool" where
  "is_space c = (c \<in> set [CHR '' '', CHR 0x09, CHR 0x0A, CHR 0x0B, CHR 0x0C, CHR 0x0D,
                          CHR 0x1C, CHR 0x1D, CHR 0x1E, CHR 0x1F])"

definition strip :: "string \<Rightarrow> string" where
  "strip s = rev (dropWhile is_space (rev (dropWhile is_space s)))"

text \<open>
  The library calls of the row loop: \<^verbatim>\<open>dateparser.parse\<close>, \<^verbatim>\<open>datetime.now()\<close> as read
  while row \<open>i\<close> is processed, \<^verbatim>\<open>strftime("%Y-%m-%d")\<close>, \<^verbatim>\<open>float\<close> of a string
  (\<open>None\<close> for its \<^verbatim>\<open>ValueError\<close>), and the provider as it answers during the cycle.
\<close>

record env =
  dateparser_parse :: "string \<Rightarrow> datetime option"
  datetime_now :: "nat \<Rightarrow> datetime"
  strftime_ymd :: "datetime \<Rightarrow> string"
  float_of_str :: "string \<Rightarrow> real option"
  yfinance :: provider

text \<open>The local variables of a row that reaches the data line.\<close>

record valuation =
  r_used :: real
  sigma_used :: real
  T_years :: real
  live_price :: real
  move_val :: real
  applied_price :: real
  bs_val_per_share :: real
  total_val :: real
  purchase_cost :: real
  profit :: real

text \<open>The four lines the loop writes for a position, with the values they are formatted from.\<close>

datatype row_out =
    Invalid_date string string string
  | No_data string string datetime
  | Unknown_type string string
  | Data_line position datetime valuation

text \<open>The body of \<^verbatim>\<open>for i, pos in enumerate(positions)\<close>.\<close>

definition process_row :: "env \<Rightarrow> real \<Rightarrow> pydict \<Rightarrow> nat \<Rightarrow> position \<Rightarrow> exn + row_out" where
  "process_row ev live_r ticker_data i pos =
     (let r_used = live_r
      in case dateparser_parse ev (expiration_date pos) of
           None \<Rightarrow> Inr (Invalid_date (ticker pos) (option_type pos) (expiration_date pos))
         | Some parsed_exp \<Rightarrow>
             let T = real_of_int (timedelta_days (parsed_exp - datetime_now ev i)) / 365;
                 live_price = dict_get ticker_data (strip (ticker pos)) None
             in case live_price of
                  None \<Rightarrow> Inr (No_data (ticker pos) (option_type pos) parsed_exp)
                | Some lp \<Rightarrow>
                    let move_val =
                          (case float_of_str ev (filter (\<lambda>c. c \<noteq> CHR ''+'') (move_str pos)) of
                             Some m \<Rightarrow> m
                           | None \<Rightarrow> 0);
                        applied_price = lp + move_val;
                        exp_str = strftime_ymd ev parsed_exp
                    in exn_bind (get_implied_vol (yfinance ev) (strip (ticker pos)) exp_str
                                   (option_type pos) (strike pos)) (\<lambda>sigma_used.
                       exn_bind
                         (if option_type pos = ''call''
                          then exn_bind (call_value applied_price (strike pos) r_used sigma_used T)
                                 (\<lambda>v. Inr (Some v))
                          else if option_type pos = ''put''
                          then exn_bind (put_value applied_price (strike pos) r_used sigma_used T)
                                 (\<lambda>v. Inr (Some v))
                          else Inr None) (\<lambda>priced.
                         case priced of
                           None \<Rightarrow> Inr (Unknown_type (ticker pos) (option_type pos))
                         | Some bs \<Rightarrow>
                             let bs_val_per_share = bs;
                                 total_val = bs_val_per_share * real_of_int SHARES_PER_CONTRACT
                                               * real_of_int (contracts pos);
                                 purchase_cost = purchase_price pos * real_of_int SHARES_PER_CONTRACT
                                                   * real_of_int (contracts pos);
                                 profit = total_val - purchase_cost
                             in Inr (Data_line pos parsed_exp
                                  \<lparr>r_used = r_used, sigma_used = sigma_used, T_years = T,
                                   live_price = lp, move_val = move_val,
                                   applied_price = applied_price,
                                   bs_val_per_share = bs_val_per_share, total_val = total_val,
                                   purchase_cost = purchase_cost, profit = profit\<rparr>))))"

text \<open>
  The row loop: an exception that leaves the body of one row leaves the loop, since the
  loop has no handler of its own.
\<close>

fun process_rows :: "env \<Rightarrow> real \<Rightarrow> pydict \<Rightarrow> nat \<Rightarrow> position list \<Rightarrow> exn + row_out list" where
  "process_rows ev live_r ticker_data i [] = Inr []"
| "process_rows ev live_r ticker_data i (pos # rest) =
     exn_bind (process_row ev live_r ticker_data i pos) (\<lambda>line.
     exn_bind (process_rows ev live_r ticker_data (Suc i) rest) (\<lambda>lines.
       Inr (line # lines)))"

text \<open>
  \<^verbatim>\<open>for tck in unique_tickers\<close>: the set is walked in the order of first occurrence.
\<close>

fun fetch_prices :: "provider \<Rightarrow> string list \<Rightarrow> pydict \<Rightarrow> exn + pydict" where
  "fetch_prices yf [] ticker_data = Inr ticker_data"
| "fetch_prices yf (tck # rest) ticker_data =
     exn_bind (get_live_price yf (strip tck)) (\<lambda>price.
       fetch_prices yf rest (ticker_data(strip tck \<mapsto> price)))"

text \<open>
  One pass of the \<^verbatim>\<open>while True\<close> body: the positions the file holds in this cycle and
  the library as it behaves in this cycle go in, the screen comes out: the rate of the
  header and one line per position.
\<close>

record cycle_input =
  csv_positions :: "position list"
  cycle_env :: env

record screen =
  header_rate :: real
  data_rows :: "row_out list"

definition refresh_cycle :: "cycle_input \<Rightarrow> real \<Rightarrow> exn + screen" where
  "refresh_cycle c live_r =
     (let positions = csv_positions c;
          unique_tickers = remdups (map ticker positions)
      in exn_bind (fetch_prices (yfinance (cycle_env c)) unique_tickers Map.empty) (\<lambda>ticker_data.
         exn_bind (process_rows (cycle_env c) live_r ticker_data 0 positions) (\<lambda>rows.
           Inr \<lparr>header_rate = live_r, data_rows = rows\<rparr>)))"

text \<open>
  \<^verbatim>\<open>stream_valuation\<close>: the rate is fetched, then the loop runs. The state counts the
  calls of \<^verbatim>\<open>get_risk_free_rate\<close> and keeps the screens refreshed so far. The loop never
  ends by itself, so the model runs a given number of cycles: \<open>(None, st)\<close> is the state
  after that many cycles, \<open>(Some e, st)\<close> the exception that ended the function.
\<close>

record run_state =
  rate_calls :: nat
  refreshes :: "screen list"

definition call_get_risk_free_rate :: "provider \<Rightarrow> run_state \<Rightarrow> (exn + real) \<times> run_state" where
  "call_get_risk_free_rate yf st = (get_risk_free_rate yf, st\<lparr>rate_calls := Suc (rate_calls st)\<rparr>)"

fun refresh_loop :: "nat \<Rightarrow> (nat \<Rightarrow> cycle_input) \<Rightarrow> real \<Rightarrow> run_state \<Rightarrow> exn option \<times> run_state" where
  "refresh_loop 0 feed live_r st = (None, st)"
| "refresh_loop (Suc n) feed live_r st =
     (case refresh_cycle (feed (length (refreshes st))) live_r of
        Inl e \<Rightarrow> (Some e, st)
      | Inr scr \<Rightarrow> refresh_loop n feed live_r (st\<lparr>refreshes := refreshes st @ [scr]\<rparr>))"

definition stream_valuation :: "provider \<Rightarrow> (nat \<Rightarrow> cycle_input) \<Rightarrow> nat \<Rightarrow> exn option \<times> run_state" where
  "stream_valuation yf feed n =
     (case call_get_risk_free_rate yf \<lparr>rate_calls = 0, refreshes = []\<rparr> of
        (Inl e, st) \<Rightarrow> (Some e, st)
      | (Inr live_r, st) \<Rightarrow> refresh_loop n feed live_r st)"

section \<open>Auxiliary definitions of the proofs\<close>

text \<open>
  For the bound on the error function: the square of the series plus a Riemann sum of
  \<open>exp (- x\<^sup>2 * (1 + t\<^sup>2)) / (1 + t\<^sup>2)\<close> over \<open>t\<close> in \<open>[0, 1]\<close> with \<open>N\<close> steps.
\<close>

definition gauss_aux :: "nat \<Rightarrow> real \<Rightarrow> real" where
  "gauss_aux N x =
     (erf_series x)\<^sup>2 +
     (\<Sum>i<N. exp (- (x\<^sup>2) * (1 + (real i / real N)\<^sup>2)) / (1 + (real i / real N)\<^sup>2)) / real N"

text \<open>
  For the pricing functions on their valid domain: the value \<open>d1\<close> and the value of
  the call as functions of the inputs.
\<close>

definition bs_d1 :: "real \<Rightarrow> real \<Rightarrow> real \<Rightarrow> real \<Rightarrow> real \<Rightarrow> real" where
  "bs_d1 S K r sigma T = (ln (S / K) + (r + 0.5 * sigma\<^sup>2) * T) / (sigma * sqrt T)"

definition bs_call :: "real \<Rightarrow> real \<Rightarrow> real \<Rightarrow> real \<Rightarrow> real \<Rightarrow> real" where
  "bs_call S K r sigma T =
     S * phi (bs_d1 S K r sigma T) - K * exp (- r * T) * phi (bs_d1 S K r sigma T - sigma * sqrt T)"

text \<open>
  For the resolvers: what the provider answers. A call \<open>raises_Exception\<close> when it raises
  a class that \<^verbatim>\<open>except Exception\<close> catches; \<open>fast_quote\<close> and \<open>info_quote\<close> are the
  two quotes of a ticker; a rate, a volatility or a price is unavailable when each call that
  could deliver it raises such an exception or has no data.
\<close>

definition raises_Exception :: "exn + 'a \<Rightarrow> bool" where
  "raises_Exception m = (case m of Inl e \<Rightarrow> is_Exception e | Inr v \<Rightarrow> False)"

definition fast_quote :: "ticker_obj \<Rightarrow> exn + pyval" where
  "fast_quote tk = (case fast_info tk of None \<Rightarrow> Inr None | Some fi \<Rightarrow> fi ''lastPrice'')"

definition info_quote :: "ticker_obj \<Rightarrow> exn + pyval" where
  "info_quote tk = exn_bind (info tk) (\<lambda>inf. Inr (dict_get inf ''regularMarketPrice'' None))"

definition rate_unavailable :: "provider \<Rightarrow> bool" where
  "rate_unavailable yf =
     (raises_Exception (yf ''^IRX'') \<or>
      (\<exists>tk. yf ''^IRX'' = Inr tk \<and> (raises_Exception (info_quote tk) \<or> info_quote tk = Inr None)))"

definition vol_unavailable :: "provider \<Rightarrow> string \<Rightarrow> string \<Rightarrow> string \<Rightarrow> bool" where
  "vol_unavailable yf symbol exp_str opt_type =
     (raises_Exception (yf symbol) \<or>
      (\<exists>tk. yf symbol = Inr tk \<and>
         (raises_Exception (options tk) \<or>
          (\<exists>opts. options tk = Inr opts \<and>
             (exp_str \<notin> set opts \<or>
              raises_Exception (option_chain tk exp_str) \<or>
              (\<exists>chain. option_chain tk exp_str = Inr chain \<and>
                 (if opt_type = ''call'' then calls chain else puts chain) = []))))))"

definition price_unavailable :: "provider \<Rightarrow> string \<Rightarrow> bool" where
  "price_unavailable yf symbol =
     (raises_Exception (yf symbol) \<or>
      (\<exists>tk. yf symbol = Inr tk \<and>
         (raises_Exception (fast_quote tk) \<or>
          fast_quote tk = Inr None \<and>
            (raises_Exception (info_quote tk) \<or> info_quote tk = Inr None)) \<and>
         (raises_Exception (history tk) \<or> history tk = Inr [])))"

text \<open>
  Example providers. \<open>example_yf\<close> knows the stock \<open>ABC\<close> at 105, with a chain of the
  strikes 95, 100 and 105 for the calls of one expiration, and the rate ticker at 3 percent;
  \<open>failing_yf\<close> raises on every call.
\<close>

definition chain_row :: "real \<Rightarrow> real \<Rightarrow> pydict" where
  "chain_row k iv = [''strike'' \<mapsto> Some k, ''impliedVolatility'' \<mapsto> Some iv]"

definition example_chain :: frame where
  "example_chain = [chain_row 95 (30 / 100), chain_row 100 (20 / 100), chain_row 105 (40 / 100)]"

definition example_ticker :: ticker_obj where
  "example_ticker =
     \<lparr>fast_info = Some (\<lambda>key. if key = ''lastPrice'' then Inr (Some 105) else Inr None),
      info = Inr [''regularMarketPrice'' \<mapsto> Some 105],
      history = Inr [[''Close'' \<mapsto> Some 104]],
      options = Inr [''2030-01-18'', ''2030-02-15''],
      option_chain = (\<lambda>e. if e = ''2030-01-18''
                           then Inr \<lparr>calls = example_chain, puts = [[''strike'' \<mapsto> Some 100]]\<rparr>
                           else Inr \<lparr>calls = [], puts = []\<rparr>)\<rparr>"

definition irx_ticker :: ticker_obj where
  "irx_ticker =
     \<lparr>fast_info = None,
      info = Inr [''regularMarketPrice'' \<mapsto> Some 3],
      history = Inl ProviderError,
      options = Inl ProviderError,
      option_chain = (\<lambda>e. Inl ProviderError)\<rparr>"

definition example_yf :: provider where
  "example_yf symbol =
     (if symbol = ''ABC'' then Inr example_ticker
      else if symbol = ''^IRX'' then Inr irx_ticker
      else Inl ProviderError)"

definition failing_yf :: provider where
  "failing_yf symbol = Inl ProviderError"

text \<open>
  \<open>interrupted_yf\<close> is interrupted from the keyboard on every call; \<open>nodata_yf\<close> answers
  every call and has no data.
\<close>

definition interrupted_yf :: provider where
  "interrupted_yf symbol = Inl KeyboardInterrupt"

definition nodata_ticker :: ticker_obj where
  "nodata_ticker =
     \<lparr>fast_info = Some (\<lambda>key. Inr None),
      info = Inr Map.empty,
      history = Inr [],
      options = Inr [],
      option_chain = (\<lambda>e. Inl ProviderError)\<rparr>"

definition nodata_yf :: provider where
  "nodata_yf symbol = Inr nodata_ticker"

text \<open>
  An example cycle: the library calls of the row loop around \<open>example_yf\<close>, with the
  clock at \<open>0\<close>, one date a year ahead and one date ten days back; a call on \<open>ABC\<close>
  and variants of it with an expired date, an unparseable date, a ticker without price, an
  unknown option type, a strike of \<open>0\<close> and a simulated move of \<open>-200\<close>; the prices the
  cycle fetched.
\<close>

definition example_env :: env where
  "example_env =
     \<lparr>dateparser_parse =
        (\<lambda>s. if s = ''2030-01-18'' then Some (365 * 86400000000)
             else if s = ''2020-01-17'' then Some (- (10 * 86400000000))
             else None),
      datetime_now = (\<lambda>i. 0),
      strftime_ymd = (\<lambda>d. if d = 365 * 86400000000 then ''2030-01-18'' else ''2020-01-17''),
      float_of_str =
        (\<lambda>s. if s = ''0'' then Some 0
             else if s = ''1.5'' then Some (3 / 2)
             else if s = ''-200'' then Some (- 200)
             else None),
      yfinance = example_yf\<rparr>"

definition example_call :: position where
  "example_call =
     \<lparr>ticker = ''ABC'', expiration_date = ''2030-01-18'', option_type = ''call'', strike = 100,
      move_str = ''0'', purchase_price = 5, contracts = 2\<rparr>"

definition expired_call :: position where
  "expired_call = example_call\<lparr>expiration_date := ''2020-01-17'', move_str := ''+1.5''\<rparr>"

definition bad_date :: position where
  "bad_date = example_call\<lparr>expiration_date := ''someday''\<rparr>"




definition deep_move :: position where
  "deep_move = example_call\<lparr>move_str := ''-200''\<rparr>"

definition example_prices :: pydict where
  "example_prices = [''ABC'' \<mapsto> Some 105, ''XYZ'' \<mapsto> None]"

text \<open>
  \<open>later_yf\<close> is \<open>example_yf\<close> with the rate ticker at 7 percent. \<open>example_feed\<close>
  gives the loop the same two positions in every cycle, with \<open>example_yf\<close> in the first
  cycle and \<open>later_yf\<close> from the second on; \<open>aborting_feed\<close> gives it the position
  with the move of \<open>-200\<close> followed by a valid one. \<open>example_screen\<close> is the screen of a cycle
  of \<open>example_feed\<close> under the rate \<open>0.03\<close>.
\<close>

definition later_yf :: provider where
  "later_yf symbol =
     (if symbol = ''^IRX''
      then Inr (irx_ticker\<lparr>info := Inr [''regularMarketPrice'' \<mapsto> Some 7]\<rparr>)
      else example_yf symbol)"

definition example_feed :: "nat \<Rightarrow> cycle_input" where
  "example_feed n =
     \<lparr>csv_positions = [bad_date, expired_call],
      cycle_env = (if n = 0 then example_env else example_env\<lparr>yfinance := later_yf\<rparr>)\<rparr>"

definition aborting_feed :: "nat \<Rightarrow> cycle_input" where
  "aborting_feed n = \<lparr>csv_positions = [deep_move, expired_call], cycle_env = example_env\<rparr>"

definition example_screen :: screen where
  "example_screen =
     \<lparr>header_rate = 3 / 100,
      data_rows =
        [Invalid_date ''ABC'' ''call'' ''someday'',
         Data_line expired_call (- (10 * 86400000000))
           \<lparr>r_used = 3 / 100, sigma_used = 25 / 100, T_years = - (10 / 365), live_price = 105,
            move_val = 3 / 2, applied_price = 213 / 2, bs_val_per_share = 13 / 2,
            total_val = 1300, purchase_cost = 1000, profit = 300\<rparr>]\<rparr>"

section \<open>The error function\<close>

text \<open>
  The series converges everywhere and its derivative is \<open>exp (- x\<^sup>2)\<close>, so
  \<open>erf_series x\<close> is the integral of \<open>exp (- t\<^sup>2)\<close> from \<open>0\<close> to \<open>x\<close>.
\<close>

lemma erf_coeff_summable: "summable (\<lambda>n. erf_coeff n * x ^ n)"
proof -
  let ?f = "\<lambda>n. erf_coeff n * x ^ n"
  have maj: "summable (\<lambda>k. \<bar>x\<bar> * (inverse (fact k) * (x\<^sup>2) ^ k))"
    by (rule summable_mult) (rule summable_exp)
  have "summable (\<lambda>k. ?f (2 * k + 1))"
  proof (rule summable_comparison_test')
    show "summable (\<lambda>k. \<bar>x\<bar> * (inverse (fact k) * (x\<^sup>2) ^ k))" by (rule maj)
  next
    fix k :: nat
    assume "k \<ge> 0"
    have "norm (?f (2 * k + 1)) = \<bar>x\<bar> * (inverse (fact k) * (x\<^sup>2) ^ k) / real (2 * k + 1)"
    proof -
      have "\<bar>x ^ (2 * k + 1)\<bar> = \<bar>x\<bar> * (x\<^sup>2) ^ k"
        by (simp add: abs_mult power_mult power_abs)
      then show ?thesis
        by (simp add: erf_coeff_def abs_mult power_abs divide_simps)
    qed
    also have "\<dots> \<le> \<bar>x\<bar> * (inverse (fact k) * (x\<^sup>2) ^ k) / 1"
      by (rule divide_left_mono) auto
    finally show "norm (?f (2 * k + 1)) \<le> \<bar>x\<bar> * (inverse (fact k) * (x\<^sup>2) ^ k)"
      by simp
  qed
  then obtain s where "(\<lambda>k. ?f (2 * k + 1)) sums s"
    by (auto simp: summable_def)
  moreover have "strict_mono (\<lambda>k::nat. 2 * k + 1)"
    by (auto simp: strict_mono_def)
  moreover have "?f n = 0" if "n \<notin> range (\<lambda>k::nat. 2 * k + 1)" for n
  proof -
    have "even n"
    proof (rule ccontr)
      assume "odd n"
      then obtain k where "n = 2 * k + 1" by (auto elim: oddE)
      with that show False by auto
    qed
    then show ?thesis by (simp add: erf_coeff_def)
  qed
  ultimately have "?f sums s"
    using sums_mono_reindex [of "\<lambda>k. 2 * k + 1" ?f s] by blast
  then show ?thesis by (auto simp: summable_def)
qed


lemma diffs_erf_coeff_sums: "(\<lambda>n. diffs erf_coeff n * x ^ n) sums exp (- x\<^sup>2)"
proof -
  let ?f = "\<lambda>n. diffs erf_coeff n * x ^ n"
  have "(\<lambda>k. (- x\<^sup>2) ^ k /\<^sub>R fact k) sums exp (- x\<^sup>2)"
    by (rule exp_converges)
  moreover have "?f (2 * k) = (- x\<^sup>2) ^ k /\<^sub>R fact k" for k
  proof -
    have "(- x\<^sup>2) ^ k = (- 1) ^ k * x ^ (2 * k)"
      by (simp add: power_mult power_minus [of "x\<^sup>2"])
    then show ?thesis
      by (simp add: diffs_def erf_coeff_def divide_simps)
  qed
  ultimately have "(\<lambda>k. ?f (2 * k)) sums exp (- x\<^sup>2)"
    by simp
  moreover have "strict_mono (\<lambda>k::nat. 2 * k)"
    by (auto simp: strict_mono_def)
  moreover have "?f n = 0" if "n \<notin> range (\<lambda>k::nat. 2 * k)" for n
  proof -
    have "odd n"
    proof (rule ccontr)
      assume "\<not> odd n"
      then obtain k where "n = 2 * k" by (auto elim: evenE)
      with that show False by auto
    qed
    then show ?thesis by (simp add: diffs_def erf_coeff_def)
  qed
  ultimately show ?thesis
    using sums_mono_reindex [of "\<lambda>k. 2 * k" ?f "exp (- x\<^sup>2)"] by blast
qed

lemma DERIV_erf_series: "DERIV erf_series x :> exp (- x\<^sup>2)"
proof -
  have "DERIV (\<lambda>x. \<Sum>n. erf_coeff n * x ^ n) x :> (\<Sum>n. diffs erf_coeff n * x ^ n)"
    by (rule termdiffs_strong_converges_everywhere) (rule erf_coeff_summable)
  moreover have "(\<Sum>n. diffs erf_coeff n * x ^ n) = exp (- x\<^sup>2)"
    using diffs_erf_coeff_sums [of x] by (simp add: sums_iff)
  moreover have "erf_series = (\<lambda>x. \<Sum>n. erf_coeff n * x ^ n)"
    by (rule ext) (simp add: erf_series_def)
  ultimately show ?thesis by simp
qed

lemma erf_series_0: "erf_series 0 = 0"
proof -
  have c0: "erf_coeff 0 = 0"
    by (simp add: erf_coeff_def)
  have "(\<lambda>n. erf_coeff n * 0 ^ n) = (\<lambda>n. 0)"
  proof
    fix n show "erf_coeff n * 0 ^ n = 0"
      using c0 by (cases n) simp_all
  qed
  then show ?thesis by (simp only: erf_series_def suminf_zero)
qed

lemma erf_series_minus: "erf_series (- x) = - erf_series x"
proof -
  have "DERIV (\<lambda>t. erf_series t + erf_series (- t)) t :> 0" for t
  proof -
    have "DERIV (\<lambda>t. erf_series t + erf_series (- t)) t
            :> exp (- t\<^sup>2) + exp (- (- t)\<^sup>2) * (- 1)"
      by (intro DERIV_add DERIV_erf_series DERIV_chain2 [OF DERIV_erf_series]
          DERIV_minus DERIV_ident)
    then show ?thesis by simp
  qed
  then have "\<forall>t. DERIV (\<lambda>t. erf_series t + erf_series (- t)) t :> 0"
    by blast
  then have "erf_series x + erf_series (- x) = erf_series 0 + erf_series (- 0)"
    by (rule DERIV_isconst_all)
  then show ?thesis by (simp add: erf_series_0)
qed

text \<open>
  The integral stays below \<open>sqrt pi / 2\<close>. On \<open>x \<ge> 0\<close> the function \<open>gauss_aux N\<close>
  does not increase, because a left Riemann sum of the decreasing integrand bounds the
  integral from above; at \<open>0\<close> it is a Riemann sum of \<open>1 / (1 + t\<^sup>2)\<close>, which exceeds
  \<open>arctan 1 = pi / 4\<close> by at most \<open>1 / N\<close>.
\<close>

lemma erf_series_incr_le:
  assumes "0 \<le> a" "a \<le> b"
  shows "erf_series b - erf_series a \<le> (b - a) * exp (- a\<^sup>2)"
proof -
  let ?h = "\<lambda>t. erf_series t - t * exp (- a\<^sup>2)"
  have "?h b \<le> ?h a"
  proof (rule DERIV_nonpos_imp_nonincreasing [OF assms(2)])
    fix t assume t: "a \<le> t" "t \<le> b"
    have "DERIV ?h t :> exp (- t\<^sup>2) - 1 * exp (- a\<^sup>2)"
      by (intro DERIV_diff DERIV_erf_series DERIV_cmult_right DERIV_ident)
    moreover have "a\<^sup>2 \<le> t\<^sup>2"
      using assms(1) t(1) by (simp add: power_mono)
    then have "exp (- t\<^sup>2) - 1 * exp (- a\<^sup>2) \<le> 0"
      by simp
    ultimately show "\<exists>y. DERIV ?h t :> y \<and> y \<le> 0"
      by blast
  qed
  then show ?thesis by (simp add: algebra_simps)
qed

lemma erf_series_le_riemann:
  assumes "0 \<le> x" "0 < N"
  shows "erf_series x \<le> (\<Sum>i<N. x / real N * exp (- (x * (real i / real N))\<^sup>2))"
proof -
  let ?p = "\<lambda>i. x * (real i / real N)"
  have "erf_series x = erf_series (?p N) - erf_series (?p 0)"
    using assms(2) by (simp add: erf_series_0)
  also have "\<dots> = (\<Sum>i<N. erf_series (?p (Suc i)) - erf_series (?p i))"
    by (rule sum_lessThan_telescope [symmetric])
  also have "\<dots> \<le> (\<Sum>i<N. x / real N * exp (- (?p i)\<^sup>2))"
  proof (rule sum_mono)
    fix i
    have "0 \<le> ?p i"
      using assms by simp
    moreover have "?p i \<le> ?p (Suc i)"
      using assms by (intro mult_left_mono divide_right_mono) simp_all
    ultimately have "erf_series (?p (Suc i)) - erf_series (?p i)
        \<le> (?p (Suc i) - ?p i) * exp (- (?p i)\<^sup>2)"
      by (rule erf_series_incr_le)
    moreover have "?p (Suc i) - ?p i = x / real N"
      by (simp add: add_divide_distrib algebra_simps)
    ultimately show "erf_series (?p (Suc i)) - erf_series (?p i)
        \<le> x / real N * exp (- (?p i)\<^sup>2)"
      by simp
  qed
  finally show ?thesis .
qed

lemma arctan_incr_ge:
  assumes "0 \<le> a" "a \<le> b"
  shows "(b - a) / (1 + b\<^sup>2) \<le> arctan b - arctan a"
proof -
  let ?h = "\<lambda>t. arctan t - t * (1 / (1 + b\<^sup>2))"
  have "?h a \<le> ?h b"
  proof (rule DERIV_nonneg_imp_nondecreasing [OF assms(2)])
    fix t assume t: "a \<le> t" "t \<le> b"
    have "DERIV ?h t :> inverse (1 + t\<^sup>2) - 1 * (1 / (1 + b\<^sup>2))"
      by (intro DERIV_diff DERIV_arctan DERIV_cmult_right DERIV_ident)
    then have "DERIV ?h t :> 1 / (1 + t\<^sup>2) - 1 * (1 / (1 + b\<^sup>2))"
      by (simp add: inverse_eq_divide)
    moreover have "t\<^sup>2 \<le> b\<^sup>2"
      using assms(1) t by (simp add: power_mono)
    then have "0 \<le> 1 / (1 + t\<^sup>2) - 1 * (1 / (1 + b\<^sup>2))"
      by (simp add: frac_le add_pos_nonneg)
    ultimately show "\<exists>y. DERIV ?h t :> y \<and> 0 \<le> y"
      by blast
  qed
  then show ?thesis by (simp add: algebra_simps diff_divide_distrib)
qed

lemma arctan_riemann_le:
  assumes "0 < N"
  shows "(\<Sum>i<N. 1 / (1 + (real i / real N)\<^sup>2)) / real N \<le> pi / 4 + 1 / real N"
proof -
  let ?g = "\<lambda>i. 1 / (1 + (real i / real N)\<^sup>2)"
  have right: "(\<Sum>i<N. ?g (Suc i) / real N) \<le> pi / 4"
  proof -
    have "(\<Sum>i<N. ?g (Suc i) / real N)
        \<le> (\<Sum>i<N. arctan (real (Suc i) / real N) - arctan (real i / real N))"
    proof (rule sum_mono)
      fix i
      have "(real (Suc i) / real N - real i / real N) / (1 + (real (Suc i) / real N)\<^sup>2)
          \<le> arctan (real (Suc i) / real N) - arctan (real i / real N)"
        by (rule arctan_incr_ge) (simp_all add: divide_right_mono)
      moreover have "real (Suc i) / real N - real i / real N = 1 / real N"
        by (simp add: add_divide_distrib)
      ultimately have "1 / real N / (1 + (real (Suc i) / real N)\<^sup>2)
          \<le> arctan (real (Suc i) / real N) - arctan (real i / real N)"
        by (simp only:)
      moreover have "1 / c / n = 1 / n / c" for c n :: real
        by (simp add: mult.commute)
      ultimately show "?g (Suc i) / real N
          \<le> arctan (real (Suc i) / real N) - arctan (real i / real N)"
        by (simp only:)
    qed
    also have "\<dots> = arctan (real N / real N) - arctan (real 0 / real N)"
      by (rule sum_lessThan_telescope)
    also have "\<dots> = pi / 4"
      using assms by (simp add: arctan_one)
    finally show ?thesis .
  qed
  have "(\<Sum>i<N. ?g i) \<le> (\<Sum>i<N. ?g i) + ?g N"
    by simp
  also have "\<dots> = (\<Sum>i<Suc N. ?g i)"
    by simp
  also have "\<dots> = ?g 0 + (\<Sum>i<N. ?g (Suc i))"
    by (rule sum.lessThan_Suc_shift)
  finally have "(\<Sum>i<N. ?g i) / real N \<le> (?g 0 + (\<Sum>i<N. ?g (Suc i))) / real N"
    by (rule divide_right_mono) simp
  also have "\<dots> = 1 / real N + (\<Sum>i<N. ?g (Suc i) / real N)"
    by (simp add: add_divide_distrib sum_divide_distrib)
  also have "\<dots> \<le> 1 / real N + pi / 4"
    using right by simp
  finally show ?thesis by simp
qed

lemma DERIV_gauss_aux:
  "DERIV (gauss_aux N) x :>
     2 * exp (- x\<^sup>2) *
       (erf_series x - (\<Sum>i<N. x / real N * exp (- (x * (real i / real N))\<^sup>2)))"
proof -
  have tm: "DERIV (\<lambda>x. exp (- (x\<^sup>2) * c) / c) x :> - (2 * x * exp (- x\<^sup>2) * exp (- (x * t)\<^sup>2))"
    if c: "c = 1 + t\<^sup>2" for c t :: real
  proof -
    have "c \<noteq> 0"
      unfolding c by (metis add_pos_nonneg less_numeral_extra(1) less_irrefl zero_le_power2)
    have "DERIV (\<lambda>x. exp (- (x\<^sup>2) * c) / c) x :> exp (- (x\<^sup>2) * c) * (- (2 * x) * c) / c"
      by (auto intro!: derivative_eq_intros)
    moreover have "exp (- (x\<^sup>2) * c) = exp (- x\<^sup>2) * exp (- (x * t)\<^sup>2)"
      unfolding c by (simp add: algebra_simps power_mult_distrib flip: exp_add)
    ultimately show ?thesis
      using \<open>c \<noteq> 0\<close> by (simp add: mult_ac)
  qed
  have "DERIV (\<lambda>x. (erf_series x)\<^sup>2 +
      (\<Sum>i<N. exp (- (x\<^sup>2) * (1 + (real i / real N)\<^sup>2)) / (1 + (real i / real N)\<^sup>2)) / real N) x
    :> 2 * erf_series x * exp (- x\<^sup>2) +
       (\<Sum>i<N. - (2 * x * exp (- x\<^sup>2) * exp (- (x * (real i / real N))\<^sup>2))) / real N"
  proof (intro DERIV_add DERIV_cdivide DERIV_sum tm refl)
    have "DERIV (\<lambda>x. (erf_series x)\<^sup>2) x :> of_nat 2 * (exp (- x\<^sup>2) * erf_series x ^ (2 - Suc 0))"
      by (rule DERIV_power) (rule DERIV_erf_series)
    then show "DERIV (\<lambda>x. (erf_series x)\<^sup>2) x :> 2 * erf_series x * exp (- x\<^sup>2)"
      by (simp add: mult_ac)
  qed
  moreover have "gauss_aux N = (\<lambda>x. (erf_series x)\<^sup>2 +
      (\<Sum>i<N. exp (- (x\<^sup>2) * (1 + (real i / real N)\<^sup>2)) / (1 + (real i / real N)\<^sup>2)) / real N)"
    by (rule ext) (simp add: gauss_aux_def)
  moreover have "2 * erf_series x * exp (- x\<^sup>2) +
       (\<Sum>i<N. - (2 * x * exp (- x\<^sup>2) * exp (- (x * (real i / real N))\<^sup>2))) / real N
     = 2 * exp (- x\<^sup>2) *
       (erf_series x - (\<Sum>i<N. x / real N * exp (- (x * (real i / real N))\<^sup>2)))"
    by (simp add: sum_negf sum_distrib_left sum_divide_distrib algebra_simps)
  ultimately show ?thesis by simp
qed

lemma gauss_aux_le_0:
  assumes "0 \<le> x" "0 < N"
  shows "gauss_aux N x \<le> gauss_aux N 0"
proof (rule DERIV_nonpos_imp_nonincreasing [OF assms(1)])
  fix t :: real assume t: "0 \<le> t" "t \<le> x"
  have "erf_series t - (\<Sum>i<N. t / real N * exp (- (t * (real i / real N))\<^sup>2)) \<le> 0"
    using erf_series_le_riemann [OF t(1) assms(2)] by simp
  then have "2 * exp (- t\<^sup>2) *
       (erf_series t - (\<Sum>i<N. t / real N * exp (- (t * (real i / real N))\<^sup>2))) \<le> 0"
    by (intro mult_nonneg_nonpos) simp_all
  then show "\<exists>y. DERIV (gauss_aux N) t :> y \<and> y \<le> 0"
    using DERIV_gauss_aux by blast
qed

lemma erf_series_sq_le: 
  assumes "0 \<le> x"
  shows "(erf_series x)\<^sup>2 \<le> pi / 4"
proof (rule ccontr)
  assume "\<not> ?thesis"
  then have "0 < (erf_series x)\<^sup>2 - pi / 4" by simp
  then obtain N :: nat where N: "0 < N" "inverse (real N) < (erf_series x)\<^sup>2 - pi / 4"
    using ex_inverse_of_nat_less by blast
  have "0 \<le> (\<Sum>i<N. exp (- (x\<^sup>2) * (1 + (real i / real N)\<^sup>2)) / (1 + (real i / real N)\<^sup>2)) / real N"
    by (intro divide_nonneg_nonneg sum_nonneg) (simp_all add: add_nonneg_nonneg)
  then have "(erf_series x)\<^sup>2 \<le> gauss_aux N x"
    by (simp add: gauss_aux_def)
  also have "\<dots> \<le> gauss_aux N 0"
    using assms N(1) by (rule gauss_aux_le_0)
  also have "\<dots> = (\<Sum>i<N. 1 / (1 + (real i / real N)\<^sup>2)) / real N"
    by (simp add: gauss_aux_def erf_series_0)
  also have "\<dots> \<le> pi / 4 + 1 / real N"
    using N(1) by (rule arctan_riemann_le)
  finally show False
    using N(2) by (simp add: inverse_eq_divide)
qed

lemma erf_series_nonneg:
  assumes "0 \<le> x"
  shows "0 \<le> erf_series x"
proof -
  have "erf_series 0 \<le> erf_series x"
  proof (rule DERIV_nonneg_imp_nondecreasing [OF assms])
    fix t :: real
    show "\<exists>y. DERIV erf_series t :> y \<and> 0 \<le> y"
      using DERIV_erf_series [of t] by (intro exI [of _ "exp (- t\<^sup>2)"]) simp
  qed
  then show ?thesis by (simp add: erf_series_0)
qed

lemma erf_series_abs_le: "\<bar>erf_series x\<bar> \<le> sqrt pi / 2"
proof -
  have pos: "\<bar>erf_series y\<bar> \<le> sqrt pi / 2" if "0 \<le> y" for y
  proof -
    have "(erf_series y)\<^sup>2 \<le> (sqrt pi / 2)\<^sup>2"
      using erf_series_sq_le [OF that] by (simp add: power_divide)
    then show ?thesis
      by (rule power2_le_imp_le [OF _ , of "\<bar>erf_series y\<bar>", simplified]) simp
  qed
  show ?thesis
  proof (cases "0 \<le> x")
    case True
    then show ?thesis by (rule pos)
  next
    case False
    then have "\<bar>erf_series (- x)\<bar> \<le> sqrt pi / 2"
      by (intro pos) simp
    then show ?thesis by (simp add: erf_series_minus)
  qed
qed


section \<open>The normal distribution function\<close>

text \<open>
  \<open>phi\<close> is symmetric, lies between \<open>0\<close> and \<open>1\<close>, and its derivative is the
  normal density.
\<close>

lemma phi_eq: "phi x = 1 / 2 + erf_series (x / sqrt 2) / sqrt pi"
  by (simp add: phi_def NormalDist_cdf_def erf_def algebra_simps)

lemma phi_minus: "phi (- x) = 1 - phi x"
  by (simp add: phi_eq erf_series_minus)

lemma phi_nonneg: "0 \<le> phi x"
proof -
  have "- (sqrt pi / 2) \<le> erf_series (x / sqrt 2)"
    using erf_series_abs_le [of "x / sqrt 2"] by linarith
  then have "- (sqrt pi / 2) / sqrt pi \<le> erf_series (x / sqrt 2) / sqrt pi"
    by (intro divide_right_mono) simp_all
  then show ?thesis
    by (simp add: phi_eq)
qed

lemma phi_le_one: "phi x \<le> 1"
  using phi_nonneg [of "- x"] by (simp add: phi_minus)

lemma DERIV_phi: "DERIV phi x :> exp (- (x\<^sup>2 / 2)) / sqrt (2 * pi)"
proof -
  have "DERIV (\<lambda>x. 1 / 2 + erf_series (x / sqrt 2) / sqrt pi) x
          :> 0 + exp (- (x / sqrt 2)\<^sup>2) * (1 / sqrt 2) / sqrt pi"
    by (intro DERIV_add DERIV_const DERIV_cdivide DERIV_chain2 [OF DERIV_erf_series]
        DERIV_ident)
  moreover have "phi = (\<lambda>x. 1 / 2 + erf_series (x / sqrt 2) / sqrt pi)"
    by (rule ext) (rule phi_eq)
  moreover have "0 + exp (- (x / sqrt 2)\<^sup>2) * (1 / sqrt 2) / sqrt pi
      = exp (- (x\<^sup>2 / 2)) / sqrt (2 * pi)"
    by (simp add: power_divide real_sqrt_mult)
  ultimately show ?thesis by simp
qed

lemma call_value_valid:
  assumes "0 < S" "0 < K" "0 < sigma" "0 < T"
  shows "call_value S K r sigma T =
           Inr (S * phi (bs_d1 S K r sigma T)
                - K * exp (- r * T) * phi (bs_d1 S K r sigma T - sigma * sqrt T))"
  using assms divide_pos_pos [of S K]
  by (simp add: not_le call_value_def exn_bind_def py_truediv_def py_log_def py_sqrt_def bs_d1_def)

lemma put_value_valid:
  assumes "0 < S" "0 < K" "0 < sigma" "0 < T"
  shows "put_value S K r sigma T =
           Inr (K * exp (- r * T) * phi (- (bs_d1 S K r sigma T - sigma * sqrt T))
                - S * phi (- bs_d1 S K r sigma T))"
  using assms divide_pos_pos [of S K]
  by (simp add: not_le put_value_def exn_bind_def py_truediv_def py_log_def py_sqrt_def bs_d1_def)


lemma bs_density_identity:
  assumes "0 < S" "0 < K" "0 < sigma" "0 < T"
  shows "K * exp (- r * T) * exp (- ((bs_d1 S K r sigma T - sigma * sqrt T)\<^sup>2 / 2))
           = S * exp (- ((bs_d1 S K r sigma T)\<^sup>2 / 2))"
proof -
  let ?d = "bs_d1 S K r sigma T"
  let ?v = "sigma * sqrt T"
  have v: "?v \<noteq> 0" "?v\<^sup>2 = sigma\<^sup>2 * T"
    using assms by (simp_all add: power_mult_distrib)
  have dv: "?d * ?v = ln (S / K) + (r + 0.5 * sigma\<^sup>2) * T"
    using v(1) by (simp add: bs_d1_def)
  have "- ((d - v)\<^sup>2 / 2) = - (d\<^sup>2 / 2) + (d * v - v\<^sup>2 / 2)" for d v :: real
    by (simp add: power2_eq_square field_simps)
  then have "- ((?d - ?v)\<^sup>2 / 2) = - (?d\<^sup>2 / 2) + (?d * ?v - ?v\<^sup>2 / 2)" .
  also have "?d * ?v - ?v\<^sup>2 / 2 = ln (S / K) + r * T"
    unfolding dv v(2) by (simp add: algebra_simps)
  finally have "exp (- ((?d - ?v)\<^sup>2 / 2)) = exp (- (?d\<^sup>2 / 2)) * (exp (ln (S / K)) * exp (r * T))"
    by (simp only: exp_add)
  moreover have "exp (ln (S / K)) = S / K"
    using assms by simp
  ultimately have E: "exp (- ((?d - ?v)\<^sup>2 / 2)) = exp (- (?d\<^sup>2 / 2)) * (S / K * exp (r * T))"
    by (simp only:)
  have ab: "exp (- r * T) * exp (r * T) = 1"
    by (simp flip: exp_add)
  have "K * a * (e * (q * b)) = (K * q) * e * (a * b)" for a b e q :: real
    by (simp add: mult_ac)
  then have "K * exp (- r * T) * (exp (- (?d\<^sup>2 / 2)) * (S / K * exp (r * T)))
      = (K * (S / K)) * exp (- (?d\<^sup>2 / 2)) * (exp (- r * T) * exp (r * T))" .
  also have "\<dots> = S * exp (- (?d\<^sup>2 / 2))"
    using assms(2) by (simp only: ab) simp
  finally show ?thesis
    by (simp only: E)
qed

lemma DERIV_bs_d1:
  assumes "0 < S" "0 < K" "0 < sigma" "0 < T"
  shows "DERIV (\<lambda>S. bs_d1 S K r sigma T) S :> 1 / (S * (sigma * sqrt T))"
proof -
  have "DERIV (\<lambda>S. (ln (S / K) + (r + 0.5 * sigma\<^sup>2) * T) / (sigma * sqrt T)) S
          :> 1 / (S * (sigma * sqrt T))"
    using assms by (auto intro!: derivative_eq_intros simp: field_simps)
  moreover have "(\<lambda>S. bs_d1 S K r sigma T)
      = (\<lambda>S. (ln (S / K) + (r + 0.5 * sigma\<^sup>2) * T) / (sigma * sqrt T))"
    by (rule ext) (simp add: bs_d1_def)
  ultimately show ?thesis by simp
qed

lemma DERIV_bs_call:
  assumes "0 < S" "0 < K" "0 < sigma" "0 < T"
  shows "DERIV (\<lambda>S. bs_call S K r sigma T) S :> phi (bs_d1 S K r sigma T)"
proof -
  let ?d = "\<lambda>S. bs_d1 S K r sigma T"
  let ?v = "sigma * sqrt T"
  let ?d' = "1 / (S * ?v)"
  let ?pdf = "\<lambda>x::real. exp (- (x\<^sup>2 / 2)) / sqrt (2 * pi)"
  have d: "DERIV ?d S :> ?d'"
    using assms by (rule DERIV_bs_d1)
  have d2: "DERIV (\<lambda>S. ?d S - ?v) S :> ?d' - 0"
    by (intro DERIV_diff d DERIV_const)
  have "DERIV (\<lambda>S. S * phi (?d S) - K * exp (- r * T) * phi (?d S - ?v)) S
          :> (1 * phi (?d S) + (?pdf (?d S) * ?d') * S)
             - K * exp (- r * T) * (?pdf (?d S - ?v) * (?d' - 0))"
    by (intro DERIV_diff DERIV_mult DERIV_ident DERIV_cmult
        DERIV_chain2 [OF DERIV_phi d] DERIV_chain2 [OF DERIV_phi d2])
  moreover have "(\<lambda>S. bs_call S K r sigma T)
      = (\<lambda>S. S * phi (?d S) - K * exp (- r * T) * phi (?d S - ?v))"
    by (rule ext) (simp add: bs_call_def)
  moreover have "(1 * phi (?d S) + (?pdf (?d S) * ?d') * S)
             - K * exp (- r * T) * (?pdf (?d S - ?v) * (?d' - 0)) = phi (?d S)"
  proof -
    have "K * exp (- r * T) * (?pdf (?d S - ?v) * (?d' - 0))
        = (K * exp (- r * T) * exp (- ((?d S - ?v)\<^sup>2 / 2))) * (?d' / sqrt (2 * pi))"
      by simp
    also have "\<dots> = (S * exp (- ((?d S)\<^sup>2 / 2))) * (?d' / sqrt (2 * pi))"
      by (simp only: bs_density_identity [OF assms])
    also have "\<dots> = (?pdf (?d S) * ?d') * S"
      by simp
    finally show ?thesis by simp
  qed
  ultimately show ?thesis by simp
qed

lemma bs_call_mono:
  assumes "0 < S1" "S1 \<le> S2" "0 < K" "0 < sigma" "0 < T"
  shows "bs_call S1 K r sigma T \<le> bs_call S2 K r sigma T"
proof (rule DERIV_nonneg_imp_nondecreasing [OF assms(2)])
  fix S assume "S1 \<le> S" "S \<le> S2"
  then have "0 < S" using assms(1) by simp
  then have "DERIV (\<lambda>S. bs_call S K r sigma T) S :> phi (bs_d1 S K r sigma T)"
    using assms by (intro DERIV_bs_call)
  then show "\<exists>y. DERIV (\<lambda>S. bs_call S K r sigma T) S :> y \<and> 0 \<le> y"
    using phi_nonneg by blast
qed

lemma bs_call_minus_spot_antimono:
  assumes "0 < S1" "S1 \<le> S2" "0 < K" "0 < sigma" "0 < T"
  shows "bs_call S2 K r sigma T - S2 \<le> bs_call S1 K r sigma T - S1"
proof (rule DERIV_nonpos_imp_nonincreasing [OF assms(2)])
  fix S assume "S1 \<le> S" "S \<le> S2"
  then have "0 < S" using assms(1) by simp
  then have "DERIV (\<lambda>S. bs_call S K r sigma T) S :> phi (bs_d1 S K r sigma T)"
    using assms by (intro DERIV_bs_call)
  then have "DERIV (\<lambda>S. bs_call S K r sigma T - S) S :> phi (bs_d1 S K r sigma T) - 1"
    by (intro DERIV_diff DERIV_ident)
  moreover have "phi (bs_d1 S K r sigma T) - 1 \<le> 0"
    using phi_le_one [of "bs_d1 S K r sigma T"] by simp
  ultimately show "\<exists>y. DERIV (\<lambda>S. bs_call S K r sigma T - S) S :> y \<and> y \<le> 0"
    by blast
qed

lemma call_value_bs_call:
  assumes "0 < S" "0 < K" "0 < sigma" "0 < T"
  shows "call_value S K r sigma T = Inr (bs_call S K r sigma T)"
  using call_value_valid [OF assms] by (simp add: bs_call_def)

lemma put_value_bs_call:
  assumes "0 < S" "0 < K" "0 < sigma" "0 < T"
  shows "put_value S K r sigma T = Inr (bs_call S K r sigma T - S + K * exp (- r * T))"
proof -
  have "put_value S K r sigma T =
      Inr (K * exp (- r * T) * (1 - phi (bs_d1 S K r sigma T - sigma * sqrt T))
           - S * (1 - phi (bs_d1 S K r sigma T)))"
    by (simp only: put_value_valid [OF assms] phi_minus)
  then show ?thesis
    by (simp add: bs_call_def algebra_simps)
qed


section \<open>The pricing functions: claims\<close>




text \<open>
  Claim C4. With \<open>T \<le> 0\<close> the pricing functions return exactly the intrinsic value,
  \<open>max 0 (S - K)\<close> for a call and \<open>max 0 (K - S)\<close> for a put, whatever the other inputs.
\<close>

theorem C4_intrinsic_value:
  "T \<le> 0 \<Longrightarrow>
     call_value S K r sigma T = Inr (max 0 (S - K)) \<and>
     put_value S K r sigma T = Inr (max 0 (K - S))"
  by (simp add: call_value_def put_value_def)

theorem C4_intrinsic_value_witness:
  "(- 1 :: real) \<le> 0 \<and>
   call_value 105 100 (5 / 100) (25 / 100) (- 1) = Inr 5 \<and>
   put_value 105 100 (5 / 100) (25 / 100) (- 1) = Inr 0 \<and>
   call_value (- 3) 0 (5 / 100) 0 0 = Inr 0 \<and>
   put_value (- 3) 0 (5 / 100) 0 0 = Inr 3"
  using C4_intrinsic_value [of "- 1" 105 100 "5 / 100" "25 / 100"]
    C4_intrinsic_value [of 0 "- 3" 0 "5 / 100" 0]
  by simp

text \<open>
  Claim C5. With positive spot, strike, volatility and time to expiry both pricing
  functions return, and the call value minus the put value is
  \<open>S - K * exp (- r * T)\<close> (put--call parity).
\<close>

theorem C5_put_call_parity:
  assumes "0 < S" "0 < K" "0 < sigma" "0 < T"
  shows "\<exists>c p. call_value S K r sigma T = Inr c \<and> put_value S K r sigma T = Inr p \<and>
           c - p = S - K * exp (- r * T)"
  by (simp add: call_value_bs_call [OF assms] put_value_bs_call [OF assms])

theorem C5_put_call_parity_witness:
  "(0::real) < 105 \<and> (0::real) < 100 \<and> (0::real) < 25 / 100 \<and> (0::real) < 1 \<and>
   (\<exists>c p. call_value 105 100 (5 / 100) (25 / 100) 1 = Inr c \<and>
          put_value 105 100 (5 / 100) (25 / 100) 1 = Inr p \<and>
          c - p = 105 - 100 * exp (- (5 / 100) * 1))"
  using C5_put_call_parity [of 105 100 "25 / 100" 1 "5 / 100"] by simp

text \<open>
  Claim C6. With strike, rate, volatility and time to expiry fixed (strike and volatility
  positive), on positive spots the call value does not decrease and the put value does
  not increase as the spot grows.
\<close>

theorem C6_monotone_in_spot:
  assumes "0 < K" "0 < sigma" "0 < S1" "S1 \<le> S2"
  shows "\<exists>c1 c2 p1 p2.
           call_value S1 K r sigma T = Inr c1 \<and> call_value S2 K r sigma T = Inr c2 \<and> c1 \<le> c2 \<and>
           put_value S1 K r sigma T = Inr p1 \<and> put_value S2 K r sigma T = Inr p2 \<and> p2 \<le> p1"
proof (cases "T \<le> 0")
  case True
  then show ?thesis
    using assms(4) by (auto simp: call_value_def put_value_def max_def)
next
  case False
  then have T: "0 < T" by simp
  have S2: "0 < S2" using assms(3,4) by simp
  have "bs_call S1 K r sigma T \<le> bs_call S2 K r sigma T"
    using assms(3,4,1,2) T by (rule bs_call_mono)
  moreover have "bs_call S2 K r sigma T - S2 \<le> bs_call S1 K r sigma T - S1"
    using assms(3,4,1,2) T by (rule bs_call_minus_spot_antimono)
  ultimately show ?thesis
    by (simp add: call_value_bs_call [OF assms(3,1,2) T] call_value_bs_call [OF S2 assms(1,2) T]
        put_value_bs_call [OF assms(3,1,2) T] put_value_bs_call [OF S2 assms(1,2) T])
qed

theorem C6_monotone_in_spot_witness:
  "(0::real) < 100 \<and> (0::real) < 25 / 100 \<and> (0::real) < 95 \<and> (95::real) \<le> 105 \<and>
   (\<exists>c1 c2 p1 p2.
      call_value 95 100 (5 / 100) (25 / 100) 1 = Inr c1 \<and>
      call_value 105 100 (5 / 100) (25 / 100) 1 = Inr c2 \<and> c1 \<le> c2 \<and>
      put_value 95 100 (5 / 100) (25 / 100) 1 = Inr p1 \<and>
      put_value 105 100 (5 / 100) (25 / 100) 1 = Inr p2 \<and> p2 \<le> p1)"
  using C6_monotone_in_spot [of 100 "25 / 100" 95 105 "5 / 100" 1] by simp

section \<open>The resolvers\<close>






text \<open>
  A handler that returns lets no \<^verbatim>\<open>Exception\<close> out, and replaces each one by its value.
\<close>

lemma try_except_Exception_catches:
  "try_except_Exception body (Inr d) = Inl e \<Longrightarrow> \<not> is_Exception e"
  by (cases body) (auto simp: try_except_Exception_def split: if_splits)

lemma try_except_Exception_default:
  "raises_Exception body \<Longrightarrow> try_except_Exception body handler = handler"
  by (cases body) (simp_all add: try_except_Exception_def raises_Exception_def)

lemma try_except_Exception_Inr [simp]:
  "try_except_Exception (Inr v) handler = Inr v"
  by (simp add: try_except_Exception_def)

lemma exn_bind_simps [simp]:
  "exn_bind (Inl e) f = Inl e" "exn_bind (Inr v) f = f v"
  by (simp_all add: exn_bind_def)

lemma raises_Exception_simps [simp]:
  "raises_Exception (Inl e) = is_Exception e" "raises_Exception (Inr v) = False"
  by (simp_all add: raises_Exception_def)

lemma get_risk_free_rate_catches: "get_risk_free_rate yf = Inl e \<Longrightarrow> \<not> is_Exception e"
proof (cases "try_except_Exception (get_risk_free_rate_try yf) (Inr None)")
  case (Inl e')
  assume "get_risk_free_rate yf = Inl e"
  with Inl have "e' = e" by (simp add: get_risk_free_rate_def)
  with Inl show ?thesis by (auto dest: try_except_Exception_catches)
next
  case (Inr v)
  assume "get_risk_free_rate yf = Inl e"
  with Inr show ?thesis by (simp add: get_risk_free_rate_def split: option.splits)
qed

lemma get_implied_vol_catches:
  "get_implied_vol yf symbol exp_str opt_type target = Inl e \<Longrightarrow> \<not> is_Exception e"
  unfolding get_implied_vol_def by (rule try_except_Exception_catches)

lemma get_live_price_catches:
  assumes "get_live_price yf symbol = Inl e"
  shows "\<not> is_Exception e"
proof (cases "try_except_Exception (get_live_price_try1 yf symbol) (Inr None)")
  case (Inl e')
  with assms have "e' = e" by (simp add: get_live_price_def)
  with Inl show ?thesis by (auto dest: try_except_Exception_catches)
next
  case (Inr v)
  with assms have "try_except_Exception (get_live_price_try2 yf symbol) (Inr None) = Inl e"
    by (cases v) (simp_all add: get_live_price_def)
  then show ?thesis by (rule try_except_Exception_catches)
qed

lemma get_risk_free_rate_try_unavailable:
  assumes "rate_unavailable yf"
  shows "raises_Exception (get_risk_free_rate_try yf) \<or> get_risk_free_rate_try yf = Inr None"
proof (cases "yf ''^IRX''")
  case (Inl e)
  with assms show ?thesis
    by (simp add: rate_unavailable_def get_risk_free_rate_try_def)
next
  case (Inr tk)
  with assms have "raises_Exception (info_quote tk) \<or> info_quote tk = Inr None"
    by (simp add: rate_unavailable_def)
  with Inr show ?thesis
    by (cases "info tk") (auto simp: get_risk_free_rate_try_def info_quote_def)
qed

lemma get_risk_free_rate_default:
  assumes "rate_unavailable yf"
  shows "get_risk_free_rate yf = Inr R_DEFAULT"
  using get_risk_free_rate_try_unavailable [OF assms]
  by (auto simp: get_risk_free_rate_def try_except_Exception_default)

lemma get_implied_vol_try_unavailable:
  assumes "vol_unavailable yf symbol exp_str opt_type"
  shows "raises_Exception (get_implied_vol_try yf symbol exp_str opt_type target) \<or>
         get_implied_vol_try yf symbol exp_str opt_type target = Inr SIGMA_DEFAULT"
proof (cases "yf symbol")
  case (Inl e)
  with assms show ?thesis
    by (simp add: vol_unavailable_def get_implied_vol_try_def)
next
  case tk: (Inr tk)
  show ?thesis
  proof (cases "options tk")
    case (Inl e)
    with assms tk show ?thesis
      by (simp add: vol_unavailable_def get_implied_vol_try_def)
  next
    case opts: (Inr opts)
    show ?thesis
    proof (cases "exp_str \<in> set opts")
      case False
      with tk opts show ?thesis
        by (simp add: get_implied_vol_try_def)
    next
      case True
      show ?thesis
      proof (cases "option_chain tk exp_str")
        case (Inl e)
        with assms tk opts True show ?thesis
          by (simp add: vol_unavailable_def get_implied_vol_try_def)
      next
        case (Inr chain)
        with assms tk opts True show ?thesis
          by (simp add: vol_unavailable_def get_implied_vol_try_def)
      qed
    qed
  qed
qed

lemma get_implied_vol_default:
  assumes "vol_unavailable yf symbol exp_str opt_type"
  shows "get_implied_vol yf symbol exp_str opt_type target = Inr SIGMA_DEFAULT"
  using get_implied_vol_try_unavailable [OF assms, of target]
  by (auto simp: get_implied_vol_def try_except_Exception_default)

lemma get_live_price_try1_unavailable:
  assumes "price_unavailable yf symbol"
  shows "raises_Exception (get_live_price_try1 yf symbol) \<or> get_live_price_try1 yf symbol = Inr None"
proof (cases "yf symbol")
  case (Inl e)
  with assms show ?thesis
    by (simp add: price_unavailable_def get_live_price_try1_def)
next
  case tk: (Inr tk)
  with assms have *: "raises_Exception (fast_quote tk) \<or>
      fast_quote tk = Inr None \<and> (raises_Exception (info_quote tk) \<or> info_quote tk = Inr None)"
    by (simp add: price_unavailable_def)
  have try1: "get_live_price_try1 yf symbol =
      exn_bind (fast_quote tk) (\<lambda>price. case price of Some p \<Rightarrow> Inr (Some p) | None \<Rightarrow> info_quote tk)"
    unfolding get_live_price_try1_def fast_quote_def info_quote_def by (simp add: tk)
  show ?thesis
  proof (cases "fast_quote tk")
    case (Inl e)
    with * show ?thesis by (simp add: try1)
  next
    case (Inr price)
    with * have "price = None" "raises_Exception (info_quote tk) \<or> info_quote tk = Inr None"
      by simp_all
    with Inr show ?thesis by (simp add: try1)
  qed
qed

lemma get_live_price_try2_unavailable:
  assumes "price_unavailable yf symbol"
  shows "raises_Exception (get_live_price_try2 yf symbol) \<or> get_live_price_try2 yf symbol = Inr None"
proof (cases "yf symbol")
  case (Inl e)
  then show ?thesis
    by (simp add: get_live_price_try2_def)
next
  case tk: (Inr tk)
  with assms have "raises_Exception (history tk) \<or> history tk = Inr []"
    by (simp add: price_unavailable_def)
  with tk show ?thesis
    by (cases "history tk") (auto simp: get_live_price_try2_def)
qed

lemma get_live_price_unavailable:
  assumes "price_unavailable yf symbol"
  shows "get_live_price yf symbol = Inr None"
  using get_live_price_try1_unavailable [OF assms] get_live_price_try2_unavailable [OF assms]
  by (auto simp: get_live_price_def try_except_Exception_default)

lemma get_risk_free_rate_value:
  assumes "yf ''^IRX'' = Inr tk" "info tk = Inr dct" "dct ''regularMarketPrice'' = Some (Some p)"
  shows "get_risk_free_rate yf = Inr (p / 100)"
  using assms by (simp add: get_risk_free_rate_def get_risk_free_rate_try_def dict_get_def)

lemma get_risk_free_rate_cases:
  "(\<exists>tk dct p. yf ''^IRX'' = Inr tk \<and> info tk = Inr dct \<and>
       dct ''regularMarketPrice'' = Some (Some p) \<and> get_risk_free_rate yf = Inr (p / 100)) \<or>
   rate_unavailable yf \<and> get_risk_free_rate yf = Inr R_DEFAULT \<or>
   (\<exists>e. \<not> is_Exception e \<and> get_risk_free_rate yf = Inl e)"
proof (cases "yf ''^IRX''")
  case (Inl e)
  show ?thesis
  proof (cases "is_Exception e")
    case True
    with Inl have "rate_unavailable yf" by (simp add: rate_unavailable_def)
    then show ?thesis by (simp add: get_risk_free_rate_default)
  next
    case False
    with Inl have "get_risk_free_rate yf = Inl e"
      by (simp add: get_risk_free_rate_def get_risk_free_rate_try_def try_except_Exception_def)
    with False show ?thesis by blast
  qed
next
  case tk: (Inr tk)
  show ?thesis
  proof (cases "info tk")
    case (Inl e)
    show ?thesis
    proof (cases "is_Exception e")
      case True
      with Inl tk have "rate_unavailable yf" by (simp add: rate_unavailable_def info_quote_def)
      then show ?thesis by (simp add: get_risk_free_rate_default)
    next
      case False
      with Inl tk have "get_risk_free_rate yf = Inl e"
        by (simp add: get_risk_free_rate_def get_risk_free_rate_try_def try_except_Exception_def)
      with False show ?thesis by blast
    qed
  next
    case dct: (Inr dct)
    show ?thesis
    proof (cases "dict_get dct ''regularMarketPrice'' None")
      case None
      with dct tk have "rate_unavailable yf" by (simp add: rate_unavailable_def info_quote_def)
      then show ?thesis by (simp add: get_risk_free_rate_default)
    next
      case (Some p)
      then have "dct ''regularMarketPrice'' = Some (Some p)"
        by (simp add: dict_get_def split: option.splits)
      with tk dct show ?thesis
        using get_risk_free_rate_value by blast
    qed
  qed
qed


section \<open>The resolvers: claims\<close>



text \<open>
  Claim C9. Whatever the provider does, an exception that leaves one of the three
  resolvers is not an \<^verbatim>\<open>Exception\<close>: nothing the provider raises escapes. When the
  provider raises or has no data, the rate resolver returns the default \<open>0.05\<close>, the
  volatility resolver returns the default \<open>0.25\<close>, and the price resolver returns
  \<^verbatim>\<open>None\<close>, not a number.
\<close>

theorem C9_resolvers_contain_failures:
  "(\<forall>e. get_risk_free_rate yf = Inl e \<longrightarrow> \<not> is_Exception e) \<and>
   (\<forall>e. get_implied_vol yf symbol exp_str opt_type target = Inl e \<longrightarrow> \<not> is_Exception e) \<and>
   (\<forall>e. get_live_price yf symbol = Inl e \<longrightarrow> \<not> is_Exception e) \<and>
   (rate_unavailable yf \<longrightarrow> get_risk_free_rate yf = Inr R_DEFAULT) \<and>
   (vol_unavailable yf symbol exp_str opt_type \<longrightarrow>
      get_implied_vol yf symbol exp_str opt_type target = Inr SIGMA_DEFAULT) \<and>
   (price_unavailable yf symbol \<longrightarrow> get_live_price yf symbol = Inr None) \<and>
   R_DEFAULT = 5 / 100 \<and> SIGMA_DEFAULT = 25 / 100"
  using get_risk_free_rate_catches [of yf] get_implied_vol_catches [of yf symbol exp_str opt_type target]
    get_live_price_catches [of yf symbol] get_risk_free_rate_default [of yf]
    get_implied_vol_default [of yf symbol exp_str opt_type target]
    get_live_price_unavailable [of yf symbol]
  by (simp add: R_DEFAULT_def SIGMA_DEFAULT_def)

theorem C9_resolvers_contain_failures_witness:
  "get_risk_free_rate interrupted_yf = Inl KeyboardInterrupt \<and>
   get_implied_vol interrupted_yf ''ABC'' ''2030-01-18'' ''call'' 100 = Inl KeyboardInterrupt \<and>
   get_live_price interrupted_yf ''ABC'' = Inl KeyboardInterrupt \<and>
   \<not> is_Exception KeyboardInterrupt \<and>
   rate_unavailable failing_yf \<and> get_risk_free_rate failing_yf = Inr (5 / 100) \<and>
   vol_unavailable failing_yf ''ABC'' ''2030-01-18'' ''call'' \<and>
   get_implied_vol failing_yf ''ABC'' ''2030-01-18'' ''call'' 100 = Inr (25 / 100) \<and>
   price_unavailable failing_yf ''ABC'' \<and> get_live_price failing_yf ''ABC'' = Inr None \<and>
   rate_unavailable nodata_yf \<and> get_risk_free_rate nodata_yf = Inr (5 / 100) \<and>
   vol_unavailable nodata_yf ''ABC'' ''2030-01-18'' ''call'' \<and>
   get_implied_vol nodata_yf ''ABC'' ''2030-01-18'' ''call'' 100 = Inr (25 / 100) \<and>
   price_unavailable nodata_yf ''ABC'' \<and> get_live_price nodata_yf ''ABC'' = Inr None"
  using
    C9_resolvers_contain_failures [of interrupted_yf "''ABC''" "''2030-01-18''" "''call''" 100]
    C9_resolvers_contain_failures [of failing_yf "''ABC''" "''2030-01-18''" "''call''" 100]
    C9_resolvers_contain_failures [of nodata_yf "''ABC''" "''2030-01-18''" "''call''" 100]
  by (simp add: interrupted_yf_def failing_yf_def nodata_yf_def nodata_ticker_def
      rate_unavailable_def vol_unavailable_def price_unavailable_def fast_quote_def
      info_quote_def dict_get_def get_risk_free_rate_def get_risk_free_rate_try_def
      get_implied_vol_def get_implied_vol_try_def get_live_price_def get_live_price_try1_def
      try_except_Exception_def)

text \<open>
  Claim C10. When the provider returns a rate value \<open>p\<close>, the rate resolver returns
  \<open>p / 100\<close>; when the provider raises or the value is absent it returns \<open>0.05\<close>; and
  these are all the cases but an interruption that is not an \<^verbatim>\<open>Exception\<close>.
\<close>

theorem C10_rate_is_percent:
  "(\<forall>tk dct p. yf ''^IRX'' = Inr tk \<and> info tk = Inr dct \<and>
       dct ''regularMarketPrice'' = Some (Some p) \<longrightarrow> get_risk_free_rate yf = Inr (p / 100)) \<and>
   (rate_unavailable yf \<longrightarrow> get_risk_free_rate yf = Inr R_DEFAULT) \<and>
   ((\<exists>tk dct p. yf ''^IRX'' = Inr tk \<and> info tk = Inr dct \<and>
       dct ''regularMarketPrice'' = Some (Some p)) \<or>
    rate_unavailable yf \<or>
    (\<exists>e. \<not> is_Exception e \<and> get_risk_free_rate yf = Inl e)) \<and>
   R_DEFAULT = 5 / 100"
  using get_risk_free_rate_value [of yf] get_risk_free_rate_default [of yf]
    get_risk_free_rate_cases [of yf]
  by (simp add: R_DEFAULT_def) blast

theorem C10_rate_is_percent_witness:
  "example_yf ''^IRX'' = Inr irx_ticker \<and>
   info irx_ticker = Inr [''regularMarketPrice'' \<mapsto> Some 3] \<and>
   [''regularMarketPrice'' \<mapsto> Some (3::real)] ''regularMarketPrice'' = Some (Some 3) \<and>
   get_risk_free_rate example_yf = Inr (3 / 100) \<and>
   rate_unavailable failing_yf \<and> get_risk_free_rate failing_yf = Inr (5 / 100) \<and>
   rate_unavailable nodata_yf \<and> get_risk_free_rate nodata_yf = Inr (5 / 100)"
  using C10_rate_is_percent [of example_yf] C10_rate_is_percent [of failing_yf]
    C10_rate_is_percent [of nodata_yf]
  by (simp add: example_yf_def irx_ticker_def failing_yf_def nodata_yf_def nodata_ticker_def
      rate_unavailable_def info_quote_def dict_get_def)

section \<open>The row loop and the refresh loop\<close>

text \<open>
  A row that reaches the data line: its values are those of the position, the rate handed
  to the loop, the volatility the resolver returned and the result of the pricing function.
\<close>

lemma exn_bind_Inr_iff: "exn_bind m f = Inr y \<longleftrightarrow> (\<exists>v. m = Inr v \<and> f v = Inr y)"
  by (cases m) simp_all

lemma exn_bind_Inl_iff: "exn_bind m f = Inl e \<longleftrightarrow> m = Inl e \<or> (\<exists>v. m = Inr v \<and> f v = Inl e)"
  by (cases m) simp_all

lemma process_row_Data_line:
  assumes "process_row ev live_r ticker_data i pos = Inr (Data_line p d v)"
  shows "p = pos \<and> r_used v = live_r \<and>
         dateparser_parse ev (expiration_date pos) = Some d \<and>
         T_years v = real_of_int (timedelta_days (d - datetime_now ev i)) / 365 \<and>
         dict_get ticker_data (strip (ticker pos)) None = Some (live_price v) \<and>
         applied_price v = live_price v + move_val v \<and>
         get_implied_vol (yfinance ev) (strip (ticker pos)) (strftime_ymd ev d)
           (option_type pos) (strike pos) = Inr (sigma_used v) \<and>
         (option_type pos = ''call'' \<or> option_type pos = ''put'') \<and>
         (if option_type pos = ''call''
          then call_value (applied_price v) (strike pos) (r_used v) (sigma_used v) (T_years v)
          else put_value (applied_price v) (strike pos) (r_used v) (sigma_used v) (T_years v))
           = Inr (bs_val_per_share v) \<and>
         total_val v = bs_val_per_share v * real_of_int SHARES_PER_CONTRACT * real_of_int (contracts pos) \<and>
         purchase_cost v = purchase_price pos * real_of_int SHARES_PER_CONTRACT * real_of_int (contracts pos) \<and>
         profit v = total_val v - purchase_cost v"
proof -
  let ?T = "\<lambda>d. real_of_int (timedelta_days (d - datetime_now ev i)) / 365"
  let ?mv = "case float_of_str ev (filter (\<lambda>c. c \<noteq> CHR ''+'') (move_str pos)) of
               Some m \<Rightarrow> m | None \<Rightarrow> 0"
  obtain d' where d': "dateparser_parse ev (expiration_date pos) = Some d'"
    using assms by (cases "dateparser_parse ev (expiration_date pos)") (simp_all add: process_row_def)
  obtain lp where lp: "dict_get ticker_data (strip (ticker pos)) None = Some lp"
    using assms d'
    by (cases "dict_get ticker_data (strip (ticker pos)) None") (simp_all add: process_row_def)
  let ?vol = "get_implied_vol (yfinance ev) (strip (ticker pos)) (strftime_ymd ev d')
                (option_type pos) (strike pos)"
  obtain sg where sg: "?vol = Inr sg"
    using assms d' lp by (cases ?vol) (simp_all add: process_row_def)
  let ?priced = "if option_type pos = ''call''
      then exn_bind (call_value (lp + ?mv) (strike pos) live_r sg (?T d')) (\<lambda>v. Inr (Some v))
      else if option_type pos = ''put''
      then exn_bind (put_value (lp + ?mv) (strike pos) live_r sg (?T d')) (\<lambda>v. Inr (Some v))
      else Inr None"
  define V where "V = (\<lambda>bs.
            \<lparr>r_used = live_r, sigma_used = sg, T_years = ?T d', live_price = lp, move_val = ?mv,
             applied_price = lp + ?mv, bs_val_per_share = bs,
             total_val = bs * real_of_int SHARES_PER_CONTRACT * real_of_int (contracts pos),
             purchase_cost = purchase_price pos * real_of_int SHARES_PER_CONTRACT
                               * real_of_int (contracts pos),
             profit = bs * real_of_int SHARES_PER_CONTRACT * real_of_int (contracts pos)
                      - purchase_price pos * real_of_int SHARES_PER_CONTRACT
                          * real_of_int (contracts pos)\<rparr>)"
  have row: "process_row ev live_r ticker_data i pos =
      exn_bind ?priced (\<lambda>priced. case priced of
          None \<Rightarrow> Inr (Unknown_type (ticker pos) (option_type pos))
        | Some bs \<Rightarrow> Inr (Data_line pos d' (V bs)))"
    unfolding process_row_def Let_def V_def by (simp add: d' lp sg)
  obtain pr where pr: "?priced = Inr pr"
    using assms unfolding row by (cases ?priced) simp_all
  obtain bs where bs: "pr = Some bs"
    using assms unfolding row pr by (cases pr) simp_all
  have kind: "option_type pos = ''call'' \<or> option_type pos = ''put''"
    using pr bs by (auto split: if_splits)
  have priced: "(if option_type pos = ''call''
          then call_value (lp + ?mv) (strike pos) live_r sg (?T d')
          else put_value (lp + ?mv) (strike pos) live_r sg (?T d')) = Inr bs"
    using pr bs kind by (auto simp: exn_bind_Inr_iff split: if_splits)
  have "Data_line pos d' (V bs) = Data_line p d v"
    using assms unfolding row pr bs by simp
  then have p: "p = pos" and d: "d = d'" and v: "v = V bs"
    by simp_all
  show ?thesis
    unfolding p d v using d' lp sg kind priced by (auto simp: V_def split: if_splits)
qed

text \<open>
  The row loop returns exactly when every row returns, with one line per position in the
  order of the positions; the first row that raises ends it with that exception.
\<close>

lemma process_rows_Inr:
  assumes "process_rows ev live_r td i ps = Inr rows"
  shows "length rows = length ps \<and>
         (\<forall>k<length ps. process_row ev live_r td (i + k) (ps ! k) = Inr (rows ! k))"
  using assms
proof (induction ps arbitrary: i rows)
  case Nil
  then show ?case by simp
next
  case (Cons pos ps)
  from Cons.prems obtain line lines where l:
    "process_row ev live_r td i pos = Inr line"
    "process_rows ev live_r td (Suc i) ps = Inr lines" "rows = line # lines"
    by (auto simp: exn_bind_Inr_iff)
  have IH: "length lines = length ps \<and>
      (\<forall>k<length ps. process_row ev live_r td (Suc i + k) (ps ! k) = Inr (lines ! k))"
    using Cons.IH [OF l(2)] .
  show ?case
  proof (intro conjI allI impI)
    show "length rows = length (pos # ps)"
      using IH l(3) by simp
  next
    fix k assume "k < length (pos # ps)"
    then show "process_row ev live_r td (i + k) ((pos # ps) ! k) = Inr (rows ! k)"
      using IH l(1,3) by (cases k) simp_all
  qed
qed






text \<open>
  Every screen carries the rate handed to the loop, in the header and in each data line,
  and the loop never calls the rate resolver.
\<close>

lemma process_rows_r_used:
  assumes "process_rows ev live_r td i ps = Inr rows" "Data_line p d v \<in> set rows"
  shows "r_used v = live_r"
proof -
  from assms(2) obtain k where k: "k < length rows" "rows ! k = Data_line p d v"
    by (auto simp: in_set_conv_nth)
  with process_rows_Inr [OF assms(1)]
  have "process_row ev live_r td (i + k) (ps ! k) = Inr (Data_line p d v)"
    by simp
  then show ?thesis
    using process_row_Data_line by blast
qed

lemma refresh_cycle_rate:
  assumes "refresh_cycle c live_r = Inr scr"
  shows "header_rate scr = live_r \<and>
         (\<forall>p d v. Data_line p d v \<in> set (data_rows scr) \<longrightarrow> r_used v = live_r)"
proof -
  from assms obtain td rows where
    rows: "process_rows (cycle_env c) live_r td 0 (csv_positions c) = Inr rows"
    and scr: "scr = \<lparr>header_rate = live_r, data_rows = rows\<rparr>"
    unfolding refresh_cycle_def Let_def by (auto simp: exn_bind_Inr_iff)
  show ?thesis
    unfolding scr using process_rows_r_used [OF rows] by simp
qed

lemma refresh_loop_inv:
  assumes "refresh_loop n feed live_r st = (outcome, st')"
  shows "rate_calls st' = rate_calls st \<and>
         (\<exists>new. refreshes st' = refreshes st @ new \<and> length new \<le> n \<and>
            (outcome = None \<longrightarrow> length new = n) \<and>
            (\<forall>scr\<in>set new. header_rate scr = live_r \<and>
               (\<forall>p d v. Data_line p d v \<in> set (data_rows scr) \<longrightarrow> r_used v = live_r)))"
  using assms
proof (induction n arbitrary: st)
  case 0
  then show ?case by simp
next
  case (Suc n)
  show ?case
  proof (cases "refresh_cycle (feed (length (refreshes st))) live_r")
    case (Inl e)
    with Suc.prems have "outcome = Some e" "st' = st" by simp_all
    then show ?thesis by simp
  next
    case (Inr scr)
    let ?st = "st\<lparr>refreshes := refreshes st @ [scr]\<rparr>"
    from Inr Suc.prems have "refresh_loop n feed live_r ?st = (outcome, st')"
      by simp
    from Suc.IH [OF this] obtain new where new:
      "rate_calls st' = rate_calls st" "refreshes st' = (refreshes st @ [scr]) @ new"
      "length new \<le> n" "outcome = None \<longrightarrow> length new = n"
      "\<forall>s\<in>set new. header_rate s = live_r \<and>
         (\<forall>p d v. Data_line p d v \<in> set (data_rows s) \<longrightarrow> r_used v = live_r)"
      by auto
    have "\<forall>s\<in>set (scr # new). header_rate s = live_r \<and>
         (\<forall>p d v. Data_line p d v \<in> set (data_rows s) \<longrightarrow> r_used v = live_r)"
      using new(5) refresh_cycle_rate [OF Inr] by simp
    moreover have "refreshes st' = refreshes st @ (scr # new)"
      using new(2) by simp
    moreover have "length (scr # new) \<le> Suc n" "outcome = None \<longrightarrow> length (scr # new) = Suc n"
      using new(3,4) by simp_all
    ultimately show ?thesis
      using new(1) by blast
  qed
qed

lemma stream_valuation_rate:
  assumes "stream_valuation yf feed n = (outcome, st)"
  shows "rate_calls st = 1 \<and> length (refreshes st) \<le> n \<and>
         (outcome = None \<longrightarrow> length (refreshes st) = n) \<and>
         (\<forall>scr\<in>set (refreshes st).
            get_risk_free_rate yf = Inr (header_rate scr) \<and>
            (\<forall>p d v. Data_line p d v \<in> set (data_rows scr) \<longrightarrow> r_used v = header_rate scr))"
proof (cases "get_risk_free_rate yf")
  case (Inl e)
  with assms have "st = \<lparr>rate_calls = 1, refreshes = []\<rparr>" "outcome = Some e"
    by (simp_all add: stream_valuation_def call_get_risk_free_rate_def)
  then show ?thesis by simp
next
  case (Inr live_r)
  with assms have "refresh_loop n feed live_r \<lparr>rate_calls = 1, refreshes = []\<rparr> = (outcome, st)"
    by (simp add: stream_valuation_def call_get_risk_free_rate_def)
  from refresh_loop_inv [OF this] Inr show ?thesis
    by auto
qed

text \<open>The example cycle, evaluated.\<close>

lemma strip_examples [simp]: "strip ''ABC'' = ''ABC''" "strip ''XYZ'' = ''XYZ''"
  by (simp_all add: strip_def is_space_def)

lemma example_vol_100:
  "get_implied_vol example_yf ''ABC'' ''2030-01-18'' ''call'' 100 = Inr (20 / 100)"
  by (simp add: get_implied_vol_def get_implied_vol_try_def example_yf_def example_ticker_def
      example_chain_def chain_row_def frame_col_def dict_get_def SIGMA_DEFAULT_def)

lemma example_vol_expired:
  "get_implied_vol example_yf ''ABC'' ''2020-01-17'' ''call'' 100 = Inr (25 / 100)"
  by (simp add: get_implied_vol_def get_implied_vol_try_def example_yf_def example_ticker_def
      SIGMA_DEFAULT_def)

lemma process_row_expired_call:
  "process_row example_env (3 / 100) example_prices i expired_call =
     Inr (Data_line expired_call (- (10 * 86400000000))
       \<lparr>r_used = 3 / 100, sigma_used = 25 / 100, T_years = - (10 / 365), live_price = 105,
        move_val = 3 / 2, applied_price = 213 / 2, bs_val_per_share = 13 / 2, total_val = 1300,
        purchase_cost = 1000, profit = 300\<rparr>)"
  by (simp add: process_row_def example_env_def expired_call_def example_call_def
      example_prices_def dict_get_def timedelta_days_def example_vol_expired call_value_def
      SHARES_PER_CONTRACT_def)



lemma later_vol_expired:
  "get_implied_vol later_yf ''ABC'' ''2020-01-17'' ''call'' 100 = Inr (25 / 100)"
  by (simp add: get_implied_vol_def get_implied_vol_try_def later_yf_def example_yf_def
      example_ticker_def SIGMA_DEFAULT_def)


lemma process_row_bad_date:
  "process_row example_env live_r td i bad_date = Inr (Invalid_date ''ABC'' ''call'' ''someday'')"
  by (simp add: process_row_def example_env_def bad_date_def example_call_def)



lemma example_live_price: "get_live_price example_yf ''ABC'' = Inr (Some 105)"
  by (simp add: get_live_price_def get_live_price_try1_def example_yf_def example_ticker_def)

lemma later_live_price: "get_live_price later_yf ''ABC'' = Inr (Some 105)"
  by (simp add: get_live_price_def get_live_price_try1_def later_yf_def example_yf_def
      example_ticker_def)

lemma fetch_prices_example:
  "fetch_prices example_yf [''ABC''] Map.empty = Inr [''ABC'' \<mapsto> Some 105]"
  "fetch_prices later_yf [''ABC''] Map.empty = Inr [''ABC'' \<mapsto> Some 105]"
  by (simp_all add: example_live_price later_live_price)

lemma cycle_row_expired:
  "process_row example_env (3 / 100) [''ABC'' \<mapsto> Some 105] i expired_call =
     Inr (Data_line expired_call (- (10 * 86400000000))
       \<lparr>r_used = 3 / 100, sigma_used = 25 / 100, T_years = - (10 / 365), live_price = 105,
        move_val = 3 / 2, applied_price = 213 / 2, bs_val_per_share = 13 / 2, total_val = 1300,
        purchase_cost = 1000, profit = 300\<rparr>)"
  "process_row (example_env\<lparr>yfinance := later_yf\<rparr>) (3 / 100) [''ABC'' \<mapsto> Some 105] i expired_call =
     Inr (Data_line expired_call (- (10 * 86400000000))
       \<lparr>r_used = 3 / 100, sigma_used = 25 / 100, T_years = - (10 / 365), live_price = 105,
        move_val = 3 / 2, applied_price = 213 / 2, bs_val_per_share = 13 / 2, total_val = 1300,
        purchase_cost = 1000, profit = 300\<rparr>)"
  by (simp_all add: process_row_def example_env_def expired_call_def example_call_def
      dict_get_def timedelta_days_def example_vol_expired later_vol_expired call_value_def
      SHARES_PER_CONTRACT_def)

lemma cycle_row_bad_date:
  "process_row (example_env\<lparr>yfinance := later_yf\<rparr>) live_r td i bad_date =
     Inr (Invalid_date ''ABC'' ''call'' ''someday'')"
  by (simp add: process_row_def example_env_def bad_date_def example_call_def)


lemma example_rate: "get_risk_free_rate example_yf = Inr (3 / 100)"
  by (simp add: get_risk_free_rate_def get_risk_free_rate_try_def example_yf_def irx_ticker_def
      dict_get_def)

lemma later_rate: "get_risk_free_rate later_yf = Inr (7 / 100)"
  by (simp add: get_risk_free_rate_def get_risk_free_rate_try_def later_yf_def irx_ticker_def
      dict_get_def)

lemma example_tickers:
  "remdups (map ticker [bad_date, expired_call]) = [''ABC'']"
  "remdups (map ticker [deep_move, expired_call]) = [''ABC'']"
  by (simp_all add: bad_date_def expired_call_def deep_move_def example_call_def)

lemma example_feed_simps:
  "csv_positions (example_feed n) = [bad_date, expired_call]"
  "cycle_env (example_feed 0) = example_env"
  "cycle_env (example_feed (Suc n)) = example_env\<lparr>yfinance := later_yf\<rparr>"
  "csv_positions (aborting_feed n) = [deep_move, expired_call]"
  "cycle_env (aborting_feed n) = example_env"
  "yfinance example_env = example_yf"
  "yfinance (example_env\<lparr>yfinance := later_yf\<rparr>) = later_yf"
  by (simp_all add: example_feed_def aborting_feed_def example_env_def)

lemma refresh_cycle_example:
  "refresh_cycle (example_feed n) (3 / 100) = Inr example_screen"
proof (cases n)
  case 0
  show ?thesis
    unfolding refresh_cycle_def Let_def 0 example_feed_simps example_tickers fetch_prices_example
    by (simp add: process_row_bad_date cycle_row_expired example_screen_def)
next
  case (Suc m)
  show ?thesis
    unfolding refresh_cycle_def Let_def Suc example_feed_simps example_tickers fetch_prices_example
    by (simp add: cycle_row_bad_date cycle_row_expired example_screen_def)
qed


lemma stream_valuation_example:
  "stream_valuation example_yf example_feed 2 =
     (None, \<lparr>rate_calls = 1, refreshes = [example_screen, example_screen]\<rparr>)"
  by (simp add: stream_valuation_def call_get_risk_free_rate_def example_rate
      numeral_2_eq_2 refresh_cycle_example)


lemma process_row_example_call:
  "process_row example_env (3 / 100) example_prices i example_call =
     Inr (Data_line example_call (365 * 86400000000)
       \<lparr>r_used = 3 / 100, sigma_used = 20 / 100, T_years = 1, live_price = 105,
        move_val = 0, applied_price = 105,
        bs_val_per_share = bs_call 105 100 (3 / 100) (20 / 100) 1,
        total_val = bs_call 105 100 (3 / 100) (20 / 100) 1 * 100 * 2,
        purchase_cost = 1000,
        profit = bs_call 105 100 (3 / 100) (20 / 100) 1 * 100 * 2 - 1000\<rparr>)"
  by (simp add: process_row_def Let_def example_env_def example_call_def
      example_prices_def dict_get_def timedelta_days_def example_vol_100 call_value_bs_call
      SHARES_PER_CONTRACT_def)

section \<open>The streaming loop: claims\<close>




text \<open>
  Claim C3, as amended. The rate resolver runs once, before the first cycle, and never
  inside a cycle: after any number of cycles it has been called once. The value it returned
  then is the rate in the header of every screen and the rate used by every position valued
  in every cycle.
\<close>

theorem C3_rate_resolved_once_before_loop:
  assumes "stream_valuation yf feed n = (outcome, st)"
  shows "rate_calls st = 1 \<and> length (refreshes st) \<le> n \<and>
         (outcome = None \<longrightarrow> length (refreshes st) = n) \<and>
         (\<forall>scr\<in>set (refreshes st).
            get_risk_free_rate yf = Inr (header_rate scr) \<and>
            (\<forall>p d v. Data_line p d v \<in> set (data_rows scr) \<longrightarrow> r_used v = header_rate scr))"
  using assms by (rule stream_valuation_rate)

theorem C3_rate_resolved_once_before_loop_witness:
  "stream_valuation example_yf example_feed 2 =
     (None, \<lparr>rate_calls = 1, refreshes = [example_screen, example_screen]\<rparr>) \<and>
   rate_calls \<lparr>rate_calls = 1, refreshes = [example_screen, example_screen]\<rparr> = 1 \<and>
   length (refreshes \<lparr>rate_calls = 1, refreshes = [example_screen, example_screen]\<rparr>) = 2 \<and>
   get_risk_free_rate example_yf = Inr (header_rate example_screen) \<and>
   header_rate example_screen = 3 / 100 \<and>
   Data_line expired_call (- (10 * 86400000000))
       \<lparr>r_used = 3 / 100, sigma_used = 25 / 100, T_years = - (10 / 365), live_price = 105,
        move_val = 3 / 2, applied_price = 213 / 2, bs_val_per_share = 13 / 2, total_val = 1300,
        purchase_cost = 1000, profit = 300\<rparr> \<in> set (data_rows example_screen)"
  using C3_rate_resolved_once_before_loop [OF stream_valuation_example] stream_valuation_example
  by (simp add: example_screen_def)

text \<open>
  The claim as stated fails: after two cycles the resolver has run once, not twice, and in
  the second cycle, where the provider would answer 7 percent, the positions are valued
  with the 3 percent of the start.
\<close>

theorem C3_rate_not_resolved_in_cycle:
  "stream_valuation example_yf example_feed 2 =
     (None, \<lparr>rate_calls = 1, refreshes = [example_screen, example_screen]\<rparr>) \<and>
   rate_calls (snd (stream_valuation example_yf example_feed 2)) \<noteq> 2 \<and>
   get_risk_free_rate (yfinance (cycle_env (example_feed 1))) = Inr (7 / 100) \<and>
   header_rate (refreshes (snd (stream_valuation example_yf example_feed 2)) ! 1) = 3 / 100"
  by (simp add: stream_valuation_example example_feed_def example_env_def later_rate
      example_screen_def)

text \<open>
  Claim C8. For every position that reaches the data line, the total value is the value per
  share times 100 times the number of contracts, the purchase cost is the purchase price
  times 100 times the number of contracts, and the profit is their difference; a contract
  covers 100 shares, and the value per share is what the pricing function returned.
\<close>

theorem C8_totals:
  assumes "process_row ev live_r ticker_data i pos = Inr (Data_line p d v)"
  shows "total_val v = bs_val_per_share v * 100 * real_of_int (contracts pos) \<and>
         purchase_cost v = purchase_price pos * 100 * real_of_int (contracts pos) \<and>
         profit v = total_val v - purchase_cost v \<and>
         SHARES_PER_CONTRACT = 100 \<and>
         (if option_type pos = ''call''
          then call_value (applied_price v) (strike pos) (r_used v) (sigma_used v) (T_years v)
          else put_value (applied_price v) (strike pos) (r_used v) (sigma_used v) (T_years v))
           = Inr (bs_val_per_share v)"
  using process_row_Data_line [OF assms] by (simp add: SHARES_PER_CONTRACT_def)

theorem C8_totals_witness:
  "process_row example_env (3 / 100) example_prices 0 expired_call =
     Inr (Data_line expired_call (- (10 * 86400000000))
       \<lparr>r_used = 3 / 100, sigma_used = 25 / 100, T_years = - (10 / 365), live_price = 105,
        move_val = 3 / 2, applied_price = 213 / 2, bs_val_per_share = 13 / 2, total_val = 1300,
        purchase_cost = 1000, profit = 300\<rparr>) \<and>
   (1300 :: real) = 13 / 2 * 100 * real_of_int (contracts expired_call) \<and>
   (1000 :: real) = purchase_price expired_call * 100 * real_of_int (contracts expired_call) \<and>
   (300 :: real) = 1300 - 1000 \<and>
   call_value (213 / 2) (strike expired_call) (3 / 100) (25 / 100) (- (10 / 365)) = Inr (13 / 2) \<and>
   process_row example_env (3 / 100) example_prices 0 example_call =
     Inr (Data_line example_call (365 * 86400000000)
       \<lparr>r_used = 3 / 100, sigma_used = 20 / 100, T_years = 1, live_price = 105,
        move_val = 0, applied_price = 105,
        bs_val_per_share = bs_call 105 100 (3 / 100) (20 / 100) 1,
        total_val = bs_call 105 100 (3 / 100) (20 / 100) 1 * 100 * 2,
        purchase_cost = 1000,
        profit = bs_call 105 100 (3 / 100) (20 / 100) 1 * 100 * 2 - 1000\<rparr>) \<and>
   call_value 105 (strike example_call) (3 / 100) (20 / 100) 1 =
     Inr (bs_call 105 100 (3 / 100) (20 / 100) 1)"
  using C8_totals [OF process_row_expired_call [of 0]] process_row_expired_call [of 0]
    C8_totals [OF process_row_example_call [of 0]] process_row_example_call [of 0]
  by (simp add: expired_call_def example_call_def)

end
